theory Spec2Isabelle
  imports Complex_Main "HOL-Library.Word"
begin

section \<open>JavaScript numbers\<close>

text \<open>
  The values of the JavaScript type \<open>number\<close>: NaN, the two infinities and the finite
  values. The two zeros compare equal under every operator used below and are one value
  here. Comparisons are exact in IEEE-754; arithmetic rounds, and the rounding is a
  parameter of each arithmetic operation.
\<close>

datatype jsnum = NaN | NegInf | Fin real | PosInf

text \<open>\<open>a > b\<close>: false as soon as one side is NaN.\<close>

fun js_gt :: "jsnum \<Rightarrow> jsnum \<Rightarrow> bool" where
  "js_gt NaN _ = False"
| "js_gt _ NaN = False"
| "js_gt NegInf _ = False"
| "js_gt _ PosInf = False"
| "js_gt PosInf _ = True"
| "js_gt (Fin a) NegInf = True"
| "js_gt (Fin a) (Fin b) = (a > b)"

text \<open>\<open>a === b\<close> on numbers: NaN is equal to nothing, itself included.\<close>

fun js_eq :: "jsnum \<Rightarrow> jsnum \<Rightarrow> bool" where
  "js_eq NaN _ = False"
| "js_eq _ NaN = False"
| "js_eq a b = (a = b)"

text \<open>\<open>a <= b\<close> and \<open>a >= b\<close>.\<close>

definition js_le :: "jsnum \<Rightarrow> jsnum \<Rightarrow> bool" where
  "js_le a b = (js_gt b a \<or> js_eq a b)"

definition js_ge :: "jsnum \<Rightarrow> jsnum \<Rightarrow> bool" where
  "js_ge a b = (js_gt a b \<or> js_eq a b)"

text \<open>\<open>isValidNumber\<close> (App.tsx, Canvas.tsx, useTransformers.ts):
  \<open>typeof num === "number" && !isNaN(num)\<close>, on a value that is a number.\<close>

definition isValidNumber :: "jsnum \<Rightarrow> bool" where
  "isValidNumber num = (num \<noteq> NaN)"

text \<open>
  Arithmetic on numbers. Each operation rounds its exact result with \<open>fl\<close>, the rounding
  of the number format; the exponent range is taken as unbounded, so a finite exact result
  stays finite. The special values follow IEEE-754. A zero divisor is taken as \<open>+0\<close>.
\<close>

fun jsign :: "jsnum \<Rightarrow> int" where
  "jsign NaN = 0"
| "jsign NegInf = -1"
| "jsign PosInf = 1"
| "jsign (Fin a) = (if a < 0 then -1 else if a = 0 then 0 else 1)"

definition ofSign :: "int \<Rightarrow> jsnum" where
  "ofSign s = (if s = 0 then NaN else if s > 0 then PosInf else NegInf)"

fun js_mul :: "(real \<Rightarrow> real) \<Rightarrow> jsnum \<Rightarrow> jsnum \<Rightarrow> jsnum" where
  "js_mul fl NaN _ = NaN"
| "js_mul fl _ NaN = NaN"
| "js_mul fl (Fin a) (Fin b) = Fin (fl (a * b))"
| "js_mul fl a b = ofSign (jsign a * jsign b)"

fun js_div :: "(real \<Rightarrow> real) \<Rightarrow> jsnum \<Rightarrow> jsnum \<Rightarrow> jsnum" where
  "js_div fl NaN _ = NaN"
| "js_div fl _ NaN = NaN"
| "js_div fl (Fin a) (Fin b) = (if b = 0 then ofSign (jsign (Fin a)) else Fin (fl (a / b)))"
| "js_div fl (Fin a) _ = Fin 0"
| "js_div fl a (Fin b) = ofSign (jsign a * (if b < 0 then -1 else 1))"
| "js_div fl _ _ = NaN"

fun js_add :: "(real \<Rightarrow> real) \<Rightarrow> jsnum \<Rightarrow> jsnum \<Rightarrow> jsnum" where
  "js_add fl NaN _ = NaN"
| "js_add fl _ NaN = NaN"
| "js_add fl (Fin a) (Fin b) = Fin (fl (a + b))"
| "js_add fl (Fin a) b = b"
| "js_add fl a (Fin b) = a"
| "js_add fl a b = (if a = b then a else NaN)"

text \<open>\<open>Math.max\<close> and \<open>Math.min\<close> of two numbers: NaN as soon as one argument is.\<close>

definition Math_max :: "jsnum \<Rightarrow> jsnum \<Rightarrow> jsnum" where
  "Math_max a b = (if a = NaN \<or> b = NaN then NaN else if js_gt b a then b else a)"

definition Math_min :: "jsnum \<Rightarrow> jsnum \<Rightarrow> jsnum" where
  "Math_min a b = (if a = NaN \<or> b = NaN then NaN else if js_gt a b then b else a)"

text \<open>\<open>!n\<close> for a number: true for zero and for NaN.\<close>

definition js_falsy :: "jsnum \<Rightarrow> bool" where
  "js_falsy n = (n = NaN \<or> n = Fin 0)"

section \<open>Mask candidate selection (useTransformers.ts, segmentWithPointsImpl)\<close>

text \<open>
  \<^verbatim>\<open>
  let bestIndex = 0;
  if (scores.length > 1) {
      let maxScore = scores[0];
      for (let i = 1; i < scores.length; ++i)
          if (scores[i] > maxScore) { maxScore = scores[i]; bestIndex = i; }
  }
  \<close>
  The loop is the recursion \<open>bestIndexLoop\<close> on the loop variables \<open>i\<close>, \<open>maxScore\<close> and
  \<open>bestIndex\<close>.
\<close>

function bestIndexLoop :: "jsnum list \<Rightarrow> nat \<Rightarrow> jsnum \<Rightarrow> nat \<Rightarrow> nat" where
  "bestIndexLoop scores i maxScore bestIndex =
     (if i < length scores
      then (if js_gt (scores ! i) maxScore
            then bestIndexLoop scores (Suc i) (scores ! i) i
            else bestIndexLoop scores (Suc i) maxScore bestIndex)
      else bestIndex)"
  by pat_completeness auto
termination
  by (relation "measure (\<lambda>(scores, i, maxScore, bestIndex). length scores - i)") auto

declare bestIndexLoop.simps [simp del]

definition selectBestIndex :: "jsnum list \<Rightarrow> nat" where
  "selectBestIndex scores =
     (if length scores > 1 then bestIndexLoop scores 1 (scores ! 0) 0 else 0)"

section \<open>Mask and clip buffers (useTransformers.ts, segmentWithPointsImpl)\<close>

type_synonym byte = "8 word"

text \<open>A tensor of the inference runtime: its shape, its element type and its flat data.
  The data is the typed array that belongs to the element type, read as numbers.\<close>

record Tensor =
  t_dims :: "nat list"
  t_type :: string
  t_data :: "jsnum list"

text \<open>A canvas, given by its width, its height and the RGBA bytes that \<open>getImageData\<close>
  reads back from it, four per pixel, row by row.\<close>

record Canvas =
  canvasWidth :: nat
  canvasHeight :: nat
  rgbaData :: "byte list"

record MaskData =
  maskCanvas :: "Canvas option"
  clippingOverlayCanvas :: "Canvas option"

text \<open>What the \<open>try\<close> block can throw after the model call: no tensor in the
  post-processed masks, a shape that is not three-dimensional after the squeeze, the
  refusal of \<open>Uint8Array.prototype.set\<close> to take a BigInt array (the data of an int64 or
  uint64 tensor), and the canvas API's refusal of an image of width or height 0.\<close>

datatype seg_error =
    InvalidPostProcessResult
  | UnexpectedTensorShape
  | TypeError
  | IndexSizeError

text \<open>\<open>tensor.squeeze(0)\<close>: the first dimension goes, the data stays.\<close>

definition squeeze0 :: "Tensor \<Rightarrow> Tensor" where
  "squeeze0 t = t\<lparr>t_dims := tl (t_dims t)\<rparr>"

text \<open>\<open>data.slice(start, end)\<close> on a typed array, for \<open>0 \<le> start \<le> end\<close>: both ends are
  clamped to the length.\<close>

definition slice :: "nat \<Rightarrow> nat \<Rightarrow> 'a list \<Rightarrow> 'a list" where
  "slice start end xs = take (end - start) (drop start xs)"

text \<open>The conversion \<open>ToUint8\<close> that a \<open>Uint8Array\<close> applies to a number stored in it: a
  value that is not finite becomes 0; a finite value is truncated towards zero and taken
  modulo 256.\<close>

definition toUint8 :: "jsnum \<Rightarrow> jsnum" where
  "toUint8 v =
     (case v of
        Fin r \<Rightarrow> Fin (of_int ((if r < 0 then \<lceil>r\<rceil> else \<lfloor>r\<rfloor>) mod 256))
      | _ \<Rightarrow> Fin 0)"

text \<open>
  The value that \<open>rawMaskData\<close> holds for a value of the tensor. The array is
  \<open>new (masksTensorPre.type === "float32" ? Float32Array : Uint8Array)(maskSize)\<close>: a
  \<open>Float32Array\<close> takes the values of a float32 tensor as they are, and a \<open>Uint8Array\<close>
  converts the values of a tensor of any other element type whose data are numbers.
\<close>

definition storedValue :: "string \<Rightarrow> jsnum \<Rightarrow> jsnum" where
  "storedValue tensorType v = (if tensorType = ''float32'' then v else toUint8 v)"

text \<open>\<open>new TypedArray(n)\<close> followed by \<open>.set(src)\<close> for a source no longer than \<open>n\<close>: the
  stored values of the source at the front, zeros behind.\<close>

definition typedArraySet :: "string \<Rightarrow> nat \<Rightarrow> jsnum list \<Rightarrow> jsnum list" where
  "typedArraySet tensorType n src =
     map (storedValue tensorType) src @ replicate (n - length src) (Fin 0)"

text \<open>
  The body of the first pixel loop, on the blue overlay's image data:
  \<^verbatim>\<open>
  const rgbaOffset = 4 * i;
  if (rawMaskData[i] === 1) {
      blueRgbaData[rgbaOffset] = 0;       blueRgbaData[rgbaOffset + 1] = 114;
      blueRgbaData[rgbaOffset + 2] = 189; blueRgbaData[rgbaOffset + 3] = 150;
  } else { blueRgbaData[rgbaOffset + 3] = 0; }
  \<close>
\<close>

definition blueStep :: "jsnum list \<Rightarrow> nat \<Rightarrow> byte list \<Rightarrow> byte list" where
  "blueStep rawMaskData i blueRgbaData =
     (let rgbaOffset = 4 * i in
      if js_eq (rawMaskData ! i) (Fin 1)
      then blueRgbaData[rgbaOffset := 0, rgbaOffset + 1 := 114,
                        rgbaOffset + 2 := 189, rgbaOffset + 3 := 150]
      else blueRgbaData[rgbaOffset + 3 := 0])"

text \<open>\<open>createImageData\<close> gives transparent black; the loop runs over
  \<open>i = 0 .. rawMaskData.length - 1\<close>.\<close>

definition blueOverlay :: "jsnum list \<Rightarrow> nat \<Rightarrow> nat \<Rightarrow> byte list" where
  "blueOverlay rawMaskData maskWidth maskHeight =
     fold (blueStep rawMaskData) [0..<length rawMaskData]
       (replicate (4 * (maskWidth * maskHeight)) 0)"

text \<open>
  The body of the second pixel loop, on the image data read back from the clip canvas:
  \<^verbatim>\<open>
  if (rawMaskData[i] === 1) { const rgbaOffset = 4 * i; clipRgbaData[rgbaOffset + 3] = 0; }
  \<close>
\<close>

definition clipStep :: "jsnum list \<Rightarrow> nat \<Rightarrow> byte list \<Rightarrow> byte list" where
  "clipStep rawMaskData i clipRgbaData =
     (if js_eq (rawMaskData ! i) (Fin 1)
      then (let rgbaOffset = 4 * i in clipRgbaData[rgbaOffset + 3 := 0])
      else clipRgbaData)"

definition clipOverlay :: "jsnum list \<Rightarrow> byte list \<Rightarrow> byte list" where
  "clipOverlay rawMaskData clipRgbaData =
     fold (clipStep rawMaskData) [0..<length rawMaskData] clipRgbaData"

text \<open>The final candidate index: the selected one, or 0 when the mask tensor has no plane
  of that index (\<open>if (bestIndex < 0 || bestIndex >= numMasksInTensor) bestIndex = 0\<close>).\<close>

definition checkedBestIndex :: "jsnum list \<Rightarrow> nat \<Rightarrow> nat" where
  "checkedBestIndex scores numMasksInTensor =
     (let bestIndex = selectBestIndex scores in
      if bestIndex \<ge> numMasksInTensor then 0 else bestIndex)"

text \<open>The winning candidate's plane:
  \<open>rawMaskData.set(masksTensorPre.data.slice(offset, offset + maskSize))\<close> with
  \<open>offset = bestIndex * maskSize\<close>.\<close>

definition extractMask :: "Tensor \<Rightarrow> nat \<Rightarrow> nat \<Rightarrow> jsnum list" where
  "extractMask masksTensorPre bestIndex maskSize =
     (let offset = bestIndex * maskSize in
      typedArraySet (t_type masksTensorPre) maskSize
        (slice offset (offset + maskSize) (t_data masksTensorPre)))"

text \<open>The shape of \<open>masksTensor\<close>: that of \<open>masksTensorPre\<close>, squeezed when it is
  four-dimensional with a first dimension of 1.\<close>

definition squeezedDims :: "Tensor \<Rightarrow> nat list" where
  "squeezedDims masksTensorPre =
     t_dims (if length (t_dims masksTensorPre) = 4 \<and> t_dims masksTensorPre ! 0 = 1
             then squeeze0 masksTensorPre else masksTensorPre)"

text \<open>
  \<open>ctx.putImageData(imageData, 0, 0)\<close> on a canvas of the image data's size, as the bytes
  the canvas then holds. A canvas stores its pixels premultiplied by alpha: the alpha byte
  is kept; a pixel of alpha 0 holds the colour 0, 0, 0; the colour bytes of any other pixel
  go through the premultiplied store, whose rounding is the browser's and is the parameter
  \<open>requantize\<close> (colour byte and alpha byte to the colour byte read back). The image
  data has four bytes per pixel.
\<close>

fun putImageData :: "(byte \<Rightarrow> byte \<Rightarrow> byte) \<Rightarrow> byte list \<Rightarrow> byte list" where
  "putImageData requantize (r # g # b # a # rest) =
     (if a = 0 then [0, 0, 0, 0]
      else [requantize r a, requantize g a, requantize b a, a])
     @ putImageData requantize rest"
| "putImageData requantize rest = rest"

text \<open>
  The \<open>try\<close> block of \<open>segmentWithPointsImpl\<close> from the scores on. \<open>originalImageElement\<close> is
  the base image's element, given by what \<open>drawImage(element, 0, 0, w, h)\<close> followed by
  \<open>getImageData(0, 0, w, h)\<close> reads back from a fresh \<open>w\<close> by \<open>h\<close> canvas. \<open>scores\<close> is
  \<open>iou_scores.data\<close>, \<open>masks\<close> the result of \<open>post_process_masks\<close>. Every \<open>throw\<close> is an
  \<open>Inl\<close>; the copy into \<open>rawMaskData\<close> refuses a BigInt array (TypeError), the canvas API
  refuses image data of width or height 0 (IndexSizeError), and a 2D context is always
  obtained. The two canvases returned are the ones the image data has been put on.
\<close>

definition buildMaskData ::
  "(byte \<Rightarrow> byte \<Rightarrow> byte) \<Rightarrow> (nat \<Rightarrow> nat \<Rightarrow> byte list) \<Rightarrow> jsnum list \<Rightarrow> Tensor list
     \<Rightarrow> seg_error + MaskData" where
  "buildMaskData requantize originalImageElement scores masks =
     (case masks of
        [] \<Rightarrow> Inl InvalidPostProcessResult
      | masksTensorPre # _ \<Rightarrow>
          (let masksTensor =
                 (if length (t_dims masksTensorPre) = 4 \<and> t_dims masksTensorPre ! 0 = 1
                  then squeeze0 masksTensorPre else masksTensorPre)
           in if length (t_dims masksTensor) \<noteq> 3 then Inl UnexpectedTensorShape
              else
                (let numMasksInTensor = t_dims masksTensor ! 0;
                     maskHeight = t_dims masksTensor ! 1;
                     maskWidth = t_dims masksTensor ! 2;
                     bestIndex = checkedBestIndex scores numMasksInTensor;
                     maskSize = maskHeight * maskWidth;
                     rawMaskData = extractMask masksTensorPre bestIndex maskSize
                 in if t_type masksTensorPre = ''int64'' \<or> t_type masksTensorPre = ''uint64''
                    then Inl TypeError
                    else if maskWidth = 0 \<or> maskHeight = 0 then Inl IndexSizeError
                    else Inr \<lparr>maskCanvas = Some
                                 \<lparr>canvasWidth = maskWidth, canvasHeight = maskHeight,
                                  rgbaData = putImageData requantize
                                    (blueOverlay rawMaskData maskWidth maskHeight)\<rparr>,
                               clippingOverlayCanvas = Some
                                 \<lparr>canvasWidth = maskWidth, canvasHeight = maskHeight,
                                  rgbaData = putImageData requantize
                                    (clipOverlay rawMaskData
                                       (originalImageElement maskWidth maskHeight))\<rparr>\<rparr>)))"

section \<open>Coordinate conversion (Canvas.tsx)\<close>

record StageSize =
  stageWidth :: jsnum
  stageHeight :: jsnum

record Rect =
  rectX :: jsnum
  rectY :: jsnum
  rectWidth :: jsnum
  rectHeight :: jsnum

record PointData =
  point_id :: string
  pointX :: jsnum
  pointY :: jsnum
  label :: nat

text \<open>\<open>getBaseImageAttrs\<close>: nothing without a base image element or with a stage dimension
  that is zero or NaN; otherwise the base image fills the stage.\<close>

definition getBaseImageAttrs :: "bool \<Rightarrow> StageSize \<Rightarrow> Rect option" where
  "getBaseImageAttrs hasElement stageSize =
     (if \<not> hasElement \<or> js_falsy (stageWidth stageSize) \<or> js_falsy (stageHeight stageSize)
         \<or> stageWidth stageSize = Fin 0 \<or> stageHeight stageSize = Fin 0
      then None
      else Some \<lparr>rectX = Fin 0, rectY = Fin 0,
                 rectWidth = stageWidth stageSize, rectHeight = stageHeight stageSize\<rparr>)"

text \<open>\<open>getPointCanvasCoords\<close>: relative point coordinates to stage pixels.\<close>

definition getPointCanvasCoords ::
  "(real \<Rightarrow> real) \<Rightarrow> Rect option \<Rightarrow> StageSize \<Rightarrow> PointData \<Rightarrow> (jsnum \<times> jsnum) option" where
  "getPointCanvasCoords fl baseImageAttrs stageSize point =
     (if baseImageAttrs = None \<or> \<not> isValidNumber (pointX point) \<or> \<not> isValidNumber (pointY point)
      then None
      else
        (let stageX = js_mul fl (pointX point) (stageWidth stageSize);
             stageY = js_mul fl (pointY point) (stageHeight stageSize)
         in if \<not> isValidNumber stageX \<or> \<not> isValidNumber stageY then None
            else Some (stageX, stageY)))"

text \<open>
  The coordinate part of \<open>handleInternalStageClick\<close>, for a click on the base image in points
  mode at the pointer position \<open>pos\<close>: the relative, clamped coordinates handed to
  \<open>onAddPoint\<close>, or nothing when the handler returns early. \<open>imgRect\<close> is the client rectangle
  of the base image node.
\<close>

definition handleInternalStageClick ::
  "(real \<Rightarrow> real) \<Rightarrow> StageSize \<Rightarrow> Rect \<Rightarrow> jsnum \<times> jsnum \<Rightarrow> (jsnum \<times> jsnum) option" where
  "handleInternalStageClick fl stageSize imgRect pos =
     (if js_falsy (stageWidth stageSize) \<or> js_falsy (stageHeight stageSize)
         \<or> stageWidth stageSize = Fin 0 \<or> stageHeight stageSize = Fin 0
      then None
      else if js_gt (rectX imgRect) (fst pos)
            \<or> js_gt (fst pos) (js_add fl (rectX imgRect) (rectWidth imgRect))
            \<or> js_gt (rectY imgRect) (snd pos)
            \<or> js_gt (snd pos) (js_add fl (rectY imgRect) (rectHeight imgRect))
      then None
      else
        (let relativeX = js_div fl (fst pos) (stageWidth stageSize);
             relativeY = js_div fl (snd pos) (stageHeight stageSize);
             clampedX = Math_max (Fin 0) (Math_min (Fin 1) relativeX);
             clampedY = Math_max (Fin 0) (Math_min (Fin 1) relativeY)
         in Some (clampedX, clampedY)))"

section \<open>Segmentation session state (App.tsx)\<close>

record Embeddings =
  image_embeddings :: "Tensor option"

record ProcessedResult =
  original_sizes :: "(nat \<times> nat) list"
  reshaped_input_sizes :: "(nat \<times> nat) list"

record BaseImageData =
  src :: string
  element :: "nat \<Rightarrow> nat \<Rightarrow> byte list"
  originalWidth :: nat
  originalHeight :: nat
  embeddings :: "Embeddings option"
  processedResult :: "ProcessedResult option"

text \<open>The React state that the embedding and segmentation effects read and write.\<close>

record AppState =
  baseImage :: "BaseImageData option"
  segmentationPoints :: "PointData list"
  maskData :: "MaskData option"
  showMask :: bool
  clipImagesGlobally :: bool

text \<open>\<open>handleAddPoint\<close>: clamp, append, show the mask. The fresh id is the caller's
  \<open>crypto.randomUUID()\<close>.\<close>

definition handleAddPoint :: "string \<Rightarrow> jsnum \<Rightarrow> jsnum \<Rightarrow> nat \<Rightarrow> AppState \<Rightarrow> AppState" where
  "handleAddPoint newId x y lbl st =
     (let validX = Math_max (Fin 0) (Math_min (Fin 1) x);
          validY = Math_max (Fin 0) (Math_min (Fin 1) y);
          newPoint = \<lparr>point_id = newId, pointX = validX, pointY = validY, label = lbl\<rparr>
      in st\<lparr>segmentationPoints := segmentationPoints st @ [newPoint], showMask := True\<rparr>)"

definition handleRemovePoint :: "string \<Rightarrow> AppState \<Rightarrow> AppState" where
  "handleRemovePoint i st =
     st\<lparr>segmentationPoints := filter (\<lambda>p. point_id p \<noteq> i) (segmentationPoints st)\<rparr>"

text \<open>
  The synchronous part of the segmentation effect, which React runs after a render in
  which \<open>segmentationPoints\<close> (or the base image's src, embeddings or processed result)
  changed. It returns the new state and, when a segmentation is started, the base image and
  the points handed to \<open>segmentWithPoints\<close>.
\<close>

definition segmentationEffect ::
  "bool \<Rightarrow> AppState \<Rightarrow> AppState \<times> (BaseImageData \<times> PointData list) option" where
  "segmentationEffect isSamReady st =
     (let hasEmbeddings =
            (case baseImage st of None \<Rightarrow> False
             | Some b \<Rightarrow> (case embeddings b of None \<Rightarrow> False
                          | Some e \<Rightarrow> image_embeddings e \<noteq> None));
          hasProcessedResult =
            (case baseImage st of None \<Rightarrow> False | Some b \<Rightarrow> processedResult b \<noteq> None);
          hasPoints = (length (segmentationPoints st) > 0)
      in if \<not> hasPoints \<and> maskData st \<noteq> None
         then (st\<lparr>maskData := None, clipImagesGlobally := False\<rparr>, None)
         else if hasEmbeddings \<and> hasProcessedResult \<and> hasPoints \<and> isSamReady
                 \<and> baseImage st \<noteq> None
         then (st, Some (the (baseImage st), segmentationPoints st))
         else (st, None))"

text \<open>A point-set mutation \<open>setSegmentationPoints(f)\<close>: the new array replaces the old one,
  and the effect runs on the state of the next render.\<close>

definition setSegmentationPoints ::
  "bool \<Rightarrow> (PointData list \<Rightarrow> PointData list) \<Rightarrow> AppState \<Rightarrow> AppState" where
  "setSegmentationPoints isSamReady f st =
     fst (segmentationEffect isSamReady (st\<lparr>segmentationPoints := f (segmentationPoints st)\<rparr>))"

text \<open>
  The \<open>.then\<close> continuation of the segmentation promise. \<open>startedWith\<close> is the base image the
  effect captured when it called \<open>segmentWithPoints\<close>, \<open>newMask\<close> what the call resolved to
  (\<open>null\<close> is \<open>None\<close>), \<open>st\<close> the state when the promise resolves.
  \<^verbatim>\<open>
  setBaseImage((currentBaseImage) => {
      if (currentBaseImage?.src === baseImage.src) { setMaskData(newMask); }
      else { setMaskData(null); setClipImagesGlobally(false); }
      return currentBaseImage; });
  \<close>
\<close>

definition segmentationThen :: "BaseImageData \<Rightarrow> MaskData option \<Rightarrow> AppState \<Rightarrow> AppState" where
  "segmentationThen startedWith newMask st =
     (if map_option src (baseImage st) = Some (src startedWith)
      then st\<lparr>maskData := newMask\<rparr>
      else st\<lparr>maskData := None, clipImagesGlobally := False\<rparr>)"

text \<open>The \<open>.catch\<close> continuation.\<close>

definition segmentationCatch :: "AppState \<Rightarrow> AppState" where
  "segmentationCatch st = st\<lparr>maskData := None, clipImagesGlobally := False\<rparr>"

text \<open>
  The continuations of the embedding promise. \<open>currentImageSrc\<close> is the src the effect
  captured, \<open>result\<close> what \<open>generateEmbeddings\<close> resolved to.
\<close>

definition embeddingThen ::
  "string \<Rightarrow> (Embeddings \<times> ProcessedResult) option \<Rightarrow> AppState \<Rightarrow> AppState" where
  "embeddingThen currentImageSrc result st =
     (case baseImage st of
        None \<Rightarrow> st
      | Some currentBaseImage \<Rightarrow>
          (case result of
             None \<Rightarrow> st
           | Some (e, p) \<Rightarrow>
               if src currentBaseImage = currentImageSrc
               then st\<lparr>baseImage := Some (currentBaseImage\<lparr>embeddings := Some e,
                                                            processedResult := Some p\<rparr>)\<rparr>
               else st))"

definition embeddingCatch :: "string \<Rightarrow> AppState \<Rightarrow> AppState" where
  "embeddingCatch currentImageSrc st =
     (case baseImage st of
        None \<Rightarrow> st
      | Some currentBaseImage \<Rightarrow>
          if src currentBaseImage = currentImageSrc
          then st\<lparr>baseImage := Some (currentBaseImage\<lparr>embeddings := None,
                                                       processedResult := None\<rparr>)\<rparr>
          else st)"

section \<open>Layer store (App.tsx)\<close>

record ImageData =
  image_id :: string
  originalSrc :: string
  processedSrc :: string
  konvaImage :: "nat option"
  relX :: jsnum
  relY :: jsnum
  relWidth :: jsnum
  relHeight :: jsnum
  rotation :: jsnum
  scaleX :: jsnum
  scaleY :: jsnum
  isRemovingBg :: bool
  isChangingColor :: bool
  isLoading :: bool
  name :: string

text \<open>The argument of \<open>handleUpdateImageTransform\<close>: each of the five fields is absent
  (\<open>None\<close>) or holds a number.\<close>

record TransformAttrs =
  attrRelX :: "jsnum option"
  attrRelY :: "jsnum option"
  attrRelWidth :: "jsnum option"
  attrRelHeight :: "jsnum option"
  attrRotation :: "jsnum option"

text \<open>
  The five validation statements, in the source's order:
  \<^verbatim>\<open>
  if (validatedAttrs.relX !== undefined && !isValidNumber(validatedAttrs.relX))
      delete validatedAttrs.relX;
  ...
  if (validatedAttrs.relWidth !== undefined &&
      (!isValidNumber(validatedAttrs.relWidth) || validatedAttrs.relWidth <= 0))
      delete validatedAttrs.relWidth;
  \<close>
\<close>

definition validateAttrs :: "TransformAttrs \<Rightarrow> TransformAttrs" where
  "validateAttrs attrs =
     (let v1 = (case attrRelX attrs of
                  Some n \<Rightarrow> if \<not> isValidNumber n then attrs\<lparr>attrRelX := None\<rparr> else attrs
                | None \<Rightarrow> attrs);
          v2 = (case attrRelY v1 of
                  Some n \<Rightarrow> if \<not> isValidNumber n then v1\<lparr>attrRelY := None\<rparr> else v1
                | None \<Rightarrow> v1);
          v3 = (case attrRelWidth v2 of
                  Some n \<Rightarrow> if \<not> isValidNumber n \<or> js_le n (Fin 0)
                            then v2\<lparr>attrRelWidth := None\<rparr> else v2
                | None \<Rightarrow> v2);
          v4 = (case attrRelHeight v3 of
                  Some n \<Rightarrow> if \<not> isValidNumber n \<or> js_le n (Fin 0)
                            then v3\<lparr>attrRelHeight := None\<rparr> else v3
                | None \<Rightarrow> v3);
          v5 = (case attrRotation v4 of
                  Some n \<Rightarrow> if \<not> isValidNumber n then v4\<lparr>attrRotation := None\<rparr> else v4
                | None \<Rightarrow> v4)
      in v5)"

text \<open>The spread \<open>{ ...t, ...validatedAttrs }\<close>: a field of the patch that is present
  replaces the layer's.\<close>

definition spreadAttrs :: "ImageData \<Rightarrow> TransformAttrs \<Rightarrow> ImageData" where
  "spreadAttrs t v =
     t\<lparr>relX := (case attrRelX v of Some n \<Rightarrow> n | None \<Rightarrow> relX t),
       relY := (case attrRelY v of Some n \<Rightarrow> n | None \<Rightarrow> relY t),
       relWidth := (case attrRelWidth v of Some n \<Rightarrow> n | None \<Rightarrow> relWidth t),
       relHeight := (case attrRelHeight v of Some n \<Rightarrow> n | None \<Rightarrow> relHeight t),
       rotation := (case attrRotation v of Some n \<Rightarrow> n | None \<Rightarrow> rotation t)\<rparr>"

definition handleUpdateImageTransform ::
  "string \<Rightarrow> TransformAttrs \<Rightarrow> ImageData list \<Rightarrow> ImageData list" where
  "handleUpdateImageTransform i attrs prev =
     (let validatedAttrs = validateAttrs attrs
      in map (\<lambda>t. if image_id t = i then spreadAttrs t validatedAttrs else t) prev)"

text \<open>\<open>Array.prototype.findIndex\<close>: the first index whose element satisfies the predicate,
  or -1.\<close>

fun findIndexFrom :: "('a \<Rightarrow> bool) \<Rightarrow> 'a list \<Rightarrow> int \<Rightarrow> int" where
  "findIndexFrom P [] k = -1"
| "findIndexFrom P (x # xs) k = (if P x then k else findIndexFrom P xs (k + 1))"

definition findIndex :: "('a \<Rightarrow> bool) \<Rightarrow> 'a list \<Rightarrow> int" where
  "findIndex P xs = findIndexFrom P xs 0"

text \<open>\<open>arr.splice(k, 1)\<close> and \<open>arr.splice(k, 0, item)\<close> for \<open>k \<ge> 0\<close>, as the array they
  leave behind; a start beyond the end is the end.\<close>

definition spliceRemove :: "nat \<Rightarrow> 'a list \<Rightarrow> 'a list" where
  "spliceRemove k xs = take k xs @ drop (Suc k) xs"

definition spliceInsert :: "nat \<Rightarrow> 'a \<Rightarrow> 'a list \<Rightarrow> 'a list" where
  "spliceInsert k item xs = take k xs @ item # drop k xs"

definition handleReorderImages :: "string \<Rightarrow> string \<Rightarrow> ImageData list \<Rightarrow> ImageData list" where
  "handleReorderImages draggedId droppedOnId prevImages =
     (let draggedIndex = findIndex (\<lambda>t. image_id t = draggedId) prevImages;
          droppedOnIndex = findIndex (\<lambda>t. image_id t = droppedOnId) prevImages
      in if draggedIndex = -1 \<or> droppedOnIndex = -1 \<or> draggedIndex = droppedOnIndex
         then prevImages
         else
           (let itemToMove = prevImages ! nat draggedIndex;
                newImages = spliceRemove (nat draggedIndex) prevImages;
                finalDropIndex =
                  (if draggedIndex < droppedOnIndex then droppedOnIndex - 1 else droppedOnIndex)
            in spliceInsert (nat finalDropIndex) itemToMove newImages))"

text \<open>
  \<open>handleRemoveBackground\<close> up to its \<open>await\<close>: the layer list it leaves and, when the
  background-removal service is called, the source handed to it. The handler's \<open>images\<close>
  is the list of the render it was created in, which is the list the update is applied to.
\<close>

definition handleRemoveBackground ::
  "string \<Rightarrow> bool \<Rightarrow> ImageData list \<Rightarrow> ImageData list \<times> string option" where
  "handleRemoveBackground i isBgRemovalReady images =
     (case find (\<lambda>t. image_id t = i) images of
        None \<Rightarrow> (images, None)
      | Some image' \<Rightarrow>
          if isRemovingBg image' \<or> \<not> isBgRemovalReady \<or> processedSrc image' \<noteq> originalSrc image'
          then (images, None)
          else (map (\<lambda>t. if image_id t = i then t\<lparr>isRemovingBg := True\<rparr> else t) images,
                Some (originalSrc image')))"

text \<open>After the \<open>await\<close>, when the result has been decoded (\<open>img.onload\<close>): the new
  source and the decoded element are stored and the flag is cleared.\<close>

definition removeBackgroundLoaded :: "string \<Rightarrow> string \<Rightarrow> nat \<Rightarrow> ImageData list \<Rightarrow> ImageData list" where
  "removeBackgroundLoaded i resultSrc img prev =
     map (\<lambda>t. if image_id t = i
               then t\<lparr>processedSrc := resultSrc, konvaImage := Some img, isRemovingBg := False\<rparr>
               else t) prev"

text \<open>\<open>handleAddColor\<close> after its tint has been computed and decoded (\<open>img.onload\<close>): the
  tinted source and element are stored.\<close>

definition addColorLoaded :: "string \<Rightarrow> string \<Rightarrow> nat \<Rightarrow> ImageData list \<Rightarrow> ImageData list" where
  "addColorLoaded i resultSrc img prev =
     map (\<lambda>t. if image_id t = i
               then t\<lparr>processedSrc := resultSrc, konvaImage := Some img, isChangingColor := False\<rparr>
               else t) prev"

text \<open>
  \<open>handleUploadImage\<close>: the placeholder layer appended on upload, centred, with the
  placeholder size, and the update when the file has been read.
\<close>

definition placeholderImage :: "string \<Rightarrow> string \<Rightarrow> ImageData" where
  "placeholderImage tempId fileName =
     \<lparr>image_id = tempId, originalSrc = '''', processedSrc = '''', konvaImage = None,
      relX = Fin (1/2), relY = Fin (1/2), relWidth = Fin (1/10), relHeight = Fin (1/10),
      rotation = Fin 0, scaleX = Fin 1, scaleY = Fin 1,
      isRemovingBg = False, isChangingColor = False, isLoading = True, name = fileName\<rparr>"

definition imageFileRead :: "string \<Rightarrow> string \<Rightarrow> ImageData list \<Rightarrow> ImageData list" where
  "imageFileRead tempId fileSrc prev =
     map (\<lambda>t. if image_id t = tempId
               then t\<lparr>originalSrc := fileSrc, processedSrc := fileSrc, isLoading := False\<rparr>
               else t) prev"

text \<open>The state after the first render (the \<open>useState\<close> defaults), and
  \<open>handleUploadBaseImage\<close> in its two parts: the reset before the file is read and the
  store of the loaded image after it.\<close>

definition initialState :: AppState where
  "initialState = \<lparr>baseImage = None, segmentationPoints = [], maskData = None,
                    showMask = True, clipImagesGlobally = False\<rparr>"

definition uploadBaseImageReset :: "AppState \<Rightarrow> AppState" where
  "uploadBaseImageReset st =
     st\<lparr>baseImage := None, segmentationPoints := [], maskData := None,
        clipImagesGlobally := False\<rparr>"

definition uploadBaseImageLoaded :: "BaseImageData \<Rightarrow> AppState \<Rightarrow> AppState" where
  "uploadBaseImageLoaded loaded st = st\<lparr>baseImage := Some loaded\<rparr>"

section \<open>Inputs of the closed instances\<close>

text \<open>\<open>Number.isFinite\<close> on a number.\<close>

fun js_isFinite :: "jsnum \<Rightarrow> bool" where
  "js_isFinite (Fin a) = True"
| "js_isFinite _ = False"

text \<open>An image element every pixel of which is transparent black, whatever the size it
  is drawn at (a fully transparent PNG).\<close>

definition transparentElement :: "nat \<Rightarrow> nat \<Rightarrow> byte list" where
  "transparentElement w h = replicate (4 * (w * h)) 0"

text \<open>An image element every pixel of which is opaque white.\<close>

definition opaqueElement :: "nat \<Rightarrow> nat \<Rightarrow> byte list" where
  "opaqueElement w h = replicate (4 * (w * h)) 255"

text \<open>A base image as \<open>handleUploadBaseImage\<close> stores it: no embeddings yet.\<close>

definition uploadedBaseImage :: "string \<Rightarrow> (nat \<Rightarrow> nat \<Rightarrow> byte list) \<Rightarrow> nat \<Rightarrow> nat \<Rightarrow> BaseImageData" where
  "uploadedBaseImage s e w h =
     \<lparr>src = s, element = e, originalWidth = w, originalHeight = h,
      embeddings = None, processedResult = None\<rparr>"

text \<open>A patch that holds \<open>relX\<close> only.\<close>

definition relXOnly :: "jsnum \<Rightarrow> TransformAttrs" where
  "relXOnly n = \<lparr>attrRelX = Some n, attrRelY = None, attrRelWidth = None,
                 attrRelHeight = None, attrRotation = None\<rparr>"

text \<open>A premultiplied store that rounds to nearest in both directions: the colour byte
  \<open>c\<close> at alpha \<open>a\<close> is stored as \<open>round (c * a / 255)\<close> and read back as
  \<open>round (p * 255 / a)\<close>, at most 255.\<close>

definition nearestStore :: "byte \<Rightarrow> byte \<Rightarrow> byte" where
  "nearestStore c a =
     of_nat (min 255 ((((unat c * unat a + 127) div 255) * 255 + unat a div 2) div unat a))"

text \<open>A mask tensor as \<open>post_process_masks\<close> returns it: binarised, of type bool.\<close>

definition boolTensor :: "nat list \<Rightarrow> jsnum list \<Rightarrow> Tensor" where
  "boolTensor shape values = \<lparr>t_dims = shape, t_type = ''bool'', t_data = values\<rparr>"

text \<open>Mask data of a one-pixel mask whose pixel is masked, and a state in which a base image of the given src
  is live, one point is set, the mask is present and global clipping is on.\<close>

definition onePixelMask :: MaskData where
  "onePixelMask =
     \<lparr>maskCanvas = Some \<lparr>canvasWidth = 1, canvasHeight = 1, rgbaData = [0, 114, 189, 150]\<rparr>,
      clippingOverlayCanvas =
        Some \<lparr>canvasWidth = 1, canvasHeight = 1, rgbaData = [0, 0, 0, 0]\<rparr>\<rparr>"

definition maskReadyState :: "string \<Rightarrow> AppState" where
  "maskReadyState s =
     \<lparr>baseImage = Some (uploadedBaseImage s opaqueElement 1 1),
      segmentationPoints = [\<lparr>point_id = ''p1'', pointX = Fin (1/2), pointY = Fin (1/2), label = 1\<rparr>],
      maskData = Some onePixelMask, showMask = True, clipImagesGlobally = True\<rparr>"

text \<open>A rounding with a visible error, for the closed instance of the coordinate round
  trip: the numbers strictly between 200 and 201 round down to 200, every other number is
  kept. It is monotone and its relative error is below 1/200.\<close>

definition coarseRounding :: "real \<Rightarrow> real" where
  "coarseRounding a = (if 200 < a \<and> a < 201 then 200 else a)"

definition relativePoint :: "real \<Rightarrow> real \<Rightarrow> PointData" where
  "relativePoint a b = \<lparr>point_id = ''p1'', pointX = Fin a, pointY = Fin b, label = 1\<rparr>"

section \<open>Properties of the candidate selection\<close>

lemma js_gt_irrefl: "\<not> js_gt a a"
  by (cases a) auto

lemma js_gt_trans: "js_gt a b \<Longrightarrow> js_gt b c \<Longrightarrow> js_gt a c"
  by (cases a; cases b; cases c) auto

lemma js_eq_gt_trans: "js_eq a b \<Longrightarrow> js_gt b c \<Longrightarrow> js_gt a c"
  by (cases a; cases b; cases c) auto

lemma js_ge_gt_trans: "js_ge a b \<Longrightarrow> js_gt b c \<Longrightarrow> js_gt a c"
  unfolding js_ge_def using js_gt_trans js_eq_gt_trans by blast

text \<open>The loop invariant: \<open>maxScore\<close> is the score at \<open>bestIndex\<close>, no score seen so far is
  greater, and no score before \<open>bestIndex\<close> is greater or equal.\<close>

lemma bestIndexLoop_spec:
  "bestIndex < i \<Longrightarrow> i \<le> length scores \<Longrightarrow> maxScore = scores ! bestIndex \<Longrightarrow>
   \<forall>j<i. \<not> js_gt (scores ! j) maxScore \<Longrightarrow>
   \<forall>j<bestIndex. \<not> js_ge (scores ! j) maxScore \<Longrightarrow>
   bestIndexLoop scores i maxScore bestIndex < length scores \<and>
   (\<forall>j<length scores. \<not> js_gt (scores ! j) (scores ! bestIndexLoop scores i maxScore bestIndex)) \<and>
   (\<forall>j<bestIndexLoop scores i maxScore bestIndex.
       \<not> js_ge (scores ! j) (scores ! bestIndexLoop scores i maxScore bestIndex))"
proof (induction scores i maxScore bestIndex rule: bestIndexLoop.induct)
  case (1 scores i maxScore bestIndex)
  show ?case
  proof (cases "i < length scores")
    case False
    with "1.prems" have "i = length scores" by simp
    moreover from False have "bestIndexLoop scores i maxScore bestIndex = bestIndex"
      by (subst bestIndexLoop.simps) simp
    ultimately show ?thesis using "1.prems" by simp
  next
    case True
    show ?thesis
    proof (cases "js_gt (scores ! i) maxScore")
      case gt: True
      have a: "\<forall>j<Suc i. \<not> js_gt (scores ! j) (scores ! i)"
      proof (intro allI impI)
        fix j assume "j < Suc i"
        show "\<not> js_gt (scores ! j) (scores ! i)"
        proof (cases "j = i")
          case True then show ?thesis by (simp add: js_gt_irrefl)
        next
          case False
          with \<open>j < Suc i\<close> have "j < i" by simp
          with "1.prems" have "\<not> js_gt (scores ! j) maxScore" by simp
          with gt show ?thesis using js_gt_trans by blast
        qed
      qed
      have b: "\<forall>j<i. \<not> js_ge (scores ! j) (scores ! i)"
      proof (intro allI impI)
        fix j assume "j < i"
        with "1.prems" have "\<not> js_gt (scores ! j) maxScore" by simp
        with gt show "\<not> js_ge (scores ! j) (scores ! i)" using js_ge_gt_trans by blast
      qed
      from True gt have "bestIndexLoop scores i maxScore bestIndex
          = bestIndexLoop scores (Suc i) (scores ! i) i"
        by (subst bestIndexLoop.simps) simp
      moreover from "1.IH"(1)[OF True gt _ _ refl a b] True
      have "bestIndexLoop scores (Suc i) (scores ! i) i < length scores \<and>
        (\<forall>j<length scores. \<not> js_gt (scores ! j) (scores ! bestIndexLoop scores (Suc i) (scores ! i) i)) \<and>
        (\<forall>j<bestIndexLoop scores (Suc i) (scores ! i) i.
          \<not> js_ge (scores ! j) (scores ! bestIndexLoop scores (Suc i) (scores ! i) i))"
        by simp
      ultimately show ?thesis by simp
    next
      case ngt: False
      have a: "\<forall>j<Suc i. \<not> js_gt (scores ! j) maxScore"
        using "1.prems"(4) ngt by (simp add: less_Suc_eq)
      from True ngt have "bestIndexLoop scores i maxScore bestIndex
          = bestIndexLoop scores (Suc i) maxScore bestIndex"
        by (subst bestIndexLoop.simps) simp
      moreover from "1.IH"(2)[OF True ngt _ _ "1.prems"(3) a "1.prems"(5)] True "1.prems"(1)
      have "bestIndexLoop scores (Suc i) maxScore bestIndex < length scores \<and>
        (\<forall>j<length scores. \<not> js_gt (scores ! j) (scores ! bestIndexLoop scores (Suc i) maxScore bestIndex)) \<and>
        (\<forall>j<bestIndexLoop scores (Suc i) maxScore bestIndex.
          \<not> js_ge (scores ! j) (scores ! bestIndexLoop scores (Suc i) maxScore bestIndex))"
        by simp
      ultimately show ?thesis by simp
    qed
  qed
qed

text \<open>When no later score is greater than \<open>maxScore\<close>, the loop keeps \<open>bestIndex\<close>.\<close>

lemma bestIndexLoop_keep:
  "\<forall>j. i \<le> j \<and> j < length scores \<longrightarrow> \<not> js_gt (scores ! j) maxScore \<Longrightarrow>
   bestIndexLoop scores i maxScore bestIndex = bestIndex"
proof (induction scores i maxScore bestIndex rule: bestIndexLoop.induct)
  case (1 scores i maxScore bestIndex)
  show ?case
  proof (cases "i < length scores")
    case False
    then show ?thesis by (subst bestIndexLoop.simps) simp
  next
    case True
    with "1.prems" have ngt: "\<not> js_gt (scores ! i) maxScore" by simp
    from "1.prems" have "\<forall>j. Suc i \<le> j \<and> j < length scores \<longrightarrow> \<not> js_gt (scores ! j) maxScore"
      by simp
    from "1.IH"(2)[OF True ngt this] True ngt show ?thesis
      by (subst bestIndexLoop.simps) simp
  qed
qed

lemma selectBestIndex_spec:
  "(scores \<noteq> [] \<longrightarrow> selectBestIndex scores < length scores) \<and>
   (\<forall>j<length scores. \<not> js_gt (scores ! j) (scores ! selectBestIndex scores)) \<and>
   (\<forall>j. j < selectBestIndex scores \<longrightarrow> \<not> js_ge (scores ! j) (scores ! selectBestIndex scores))"
proof (cases "length scores > 1")
  case True
  have "\<forall>j<1::nat. \<not> js_gt (scores ! j) (scores ! 0)" by (simp add: js_gt_irrefl)
  with bestIndexLoop_spec[of 0 1 scores "scores ! 0"] True
  show ?thesis by (simp add: selectBestIndex_def)
next
  case False
  then have sel: "selectBestIndex scores = 0" by (simp add: selectBestIndex_def)
  from False have "\<forall>j<length scores. j = 0" by auto
  then have "\<forall>j<length scores. \<not> js_gt (scores ! j) (scores ! 0)"
    using js_gt_irrefl by metis
  with sel show ?thesis by auto
qed

lemma selectBestIndex_all_equal:
  "\<forall>j<length scores. scores ! j = scores ! 0 \<Longrightarrow> selectBestIndex scores = 0"
proof (cases "length scores > 1")
  case False
  then show ?thesis by (simp add: selectBestIndex_def)
next
  case True
  assume eq: "\<forall>j<length scores. scores ! j = scores ! 0"
  have "\<forall>j. 1 \<le> j \<and> j < length scores \<longrightarrow> \<not> js_gt (scores ! j) (scores ! 0)"
    using eq js_gt_irrefl by metis
  from bestIndexLoop_keep[OF this] True show ?thesis by (simp add: selectBestIndex_def)
qed

lemma js_not_gt_ge: "a \<noteq> NaN \<Longrightarrow> b \<noteq> NaN \<Longrightarrow> \<not> js_gt a b \<Longrightarrow> js_ge b a"
  by (cases a; cases b) (auto simp: js_ge_def)

lemma js_not_ge_gt: "a \<noteq> NaN \<Longrightarrow> b \<noteq> NaN \<Longrightarrow> \<not> js_ge a b \<Longrightarrow> js_gt b a"
  by (cases a; cases b) (auto simp: js_ge_def)

text \<open>
  Claim C3, as amended. Mask candidate selection is deterministic (a function of the score
  array) and picks the first candidate with the maximal confidence score: for every
  confidence-score array that holds no NaN, the chosen index is an index of the array when
  the array is not empty, the chosen score is greater than or equal to every score, and it
  is greater than every score at a smaller index, so the chosen index is the smallest that
  attains the maximum. For every array, with all-equal scores index 0 is chosen.
\<close>

theorem selectBestIndex_first_maximal:
  "(NaN \<notin> set scores \<longrightarrow>
      (scores \<noteq> [] \<longrightarrow> selectBestIndex scores < length scores) \<and>
      (\<forall>j<length scores. js_ge (scores ! selectBestIndex scores) (scores ! j)) \<and>
      (\<forall>j. j < selectBestIndex scores \<longrightarrow> js_gt (scores ! selectBestIndex scores) (scores ! j))) \<and>
   ((\<forall>j<length scores. scores ! j = scores ! 0) \<longrightarrow> selectBestIndex scores = 0)"
proof (intro conjI impI)
  assume nn: "NaN \<notin> set scores"
  note s = selectBestIndex_spec [of scores]
  show b: "selectBestIndex scores < length scores" if "scores \<noteq> []" using s that by blast
  have bn: "scores ! selectBestIndex scores \<noteq> NaN" if "j < length scores" for j
  proof -
    from that have "scores \<noteq> []" by auto
    from b[OF this] nn show ?thesis by (metis nth_mem)
  qed
  show "\<forall>j<length scores. js_ge (scores ! selectBestIndex scores) (scores ! j)"
  proof (intro allI impI)
    fix j assume j: "j < length scores"
    then have "scores ! j \<noteq> NaN" using nn by (metis nth_mem)
    moreover from s j have "\<not> js_gt (scores ! j) (scores ! selectBestIndex scores)" by blast
    ultimately show "js_ge (scores ! selectBestIndex scores) (scores ! j)"
      using bn[OF j] by (intro js_not_gt_ge)
  qed
  show "\<forall>j. j < selectBestIndex scores \<longrightarrow> js_gt (scores ! selectBestIndex scores) (scores ! j)"
  proof (intro allI impI)
    fix j assume j: "j < selectBestIndex scores"
    have "scores \<noteq> []"
    proof
      assume "scores = []"
      then have "selectBestIndex scores = 0" by (simp add: selectBestIndex_def)
      with j show False by simp
    qed
    from b[OF this] j have jl: "j < length scores" by simp
    then have "scores ! j \<noteq> NaN" using nn by (metis nth_mem)
    moreover from s j have "\<not> js_ge (scores ! j) (scores ! selectBestIndex scores)" by blast
    ultimately show "js_gt (scores ! selectBestIndex scores) (scores ! j)"
      using bn[OF jl] by (intro js_not_ge_gt)
  qed
next
  assume "\<forall>j<length scores. scores ! j = scores ! 0"
  then show "selectBestIndex scores = 0" by (rule selectBestIndex_all_equal)
qed

theorem selectBestIndex_first_maximal_witness:
  "NaN \<notin> set [Fin (1/2), Fin (9/10), Fin (9/10), Fin (1/10)] \<and>
   [Fin (1/2), Fin (9/10), Fin (9/10), Fin (1/10)] \<noteq> [] \<and>
   selectBestIndex [Fin (1/2), Fin (9/10), Fin (9/10), Fin (1/10)] = 1 \<and>
   js_ge ([Fin (1/2), Fin (9/10), Fin (9/10), Fin (1/10)]
            ! selectBestIndex [Fin (1/2), Fin (9/10), Fin (9/10), Fin (1/10)])
         ([Fin (1/2), Fin (9/10), Fin (9/10), Fin (1/10)] ! 2) \<and>
   js_gt ([Fin (1/2), Fin (9/10), Fin (9/10), Fin (1/10)]
            ! selectBestIndex [Fin (1/2), Fin (9/10), Fin (9/10), Fin (1/10)])
         ([Fin (1/2), Fin (9/10), Fin (9/10), Fin (1/10)] ! 0) \<and>
   selectBestIndex [Fin (7/10), Fin (7/10), Fin (7/10)] = 0"
proof -
  let ?s = "[Fin (1/2), Fin (9/10), Fin (9/10), Fin (1/10)]"
  have nn: "NaN \<notin> set ?s" by simp
  have e: "selectBestIndex ?s = 1" by code_simp
  have e0: "\<forall>j<length [Fin (7/10), Fin (7/10), Fin (7/10)].
              [Fin (7/10), Fin (7/10), Fin (7/10)] ! j = [Fin (7/10), Fin (7/10), Fin (7/10)] ! 0"
    by (simp add: nth_Cons split: nat.split)
  have l2: "(2::nat) < length ?s" by simp
  have l0: "(0::nat) < selectBestIndex ?s" by (simp add: e)
  from selectBestIndex_first_maximal [of ?s] nn l2
  have c1: "js_ge (?s ! selectBestIndex ?s) (?s ! 2)" by blast
  from selectBestIndex_first_maximal [of ?s] nn l0
  have c2: "js_gt (?s ! selectBestIndex ?s) (?s ! 0)" by blast
  from selectBestIndex_first_maximal [of "[Fin (7/10), Fin (7/10), Fin (7/10)]"] e0
  have c3: "selectBestIndex [Fin (7/10), Fin (7/10), Fin (7/10)] = 0" by blast
  from nn e c1 c2 c3 show ?thesis by blast
qed

text \<open>
  Claim C3 as stated fails on an array that holds a NaN: for the scores NaN, 0.5, 0.7 the
  chosen index is 0, and the score there is not greater than or equal to the score 0.7 at
  index 2, which is greater than the score at index 1.
\<close>

theorem selectBestIndex_nan_counterexample:
  "selectBestIndex [NaN, Fin (1/2), Fin (7/10)] = 0 \<and>
   \<not> js_ge ([NaN, Fin (1/2), Fin (7/10)] ! 0) ([NaN, Fin (1/2), Fin (7/10)] ! 2) \<and>
   js_gt ([NaN, Fin (1/2), Fin (7/10)] ! 2) ([NaN, Fin (1/2), Fin (7/10)] ! 1)"
proof -
  have "selectBestIndex [NaN, Fin (1/2), Fin (7/10)] = 0" by code_simp
  then show ?thesis by (simp add: js_ge_def)
qed

section \<open>Properties of the layer order\<close>

lemma findIndexFrom_cases:
  "findIndexFrom P xs k = -1 \<and> (\<forall>x\<in>set xs. \<not> P x) \<or>
   (\<exists>n. findIndexFrom P xs k = k + int n \<and> n < length xs \<and> P (xs ! n) \<and> (\<forall>j<n. \<not> P (xs ! j)))"
  if "0 \<le> k"
  using that
proof (induction xs arbitrary: k)
  case Nil
  then show ?case by simp
next
  case (Cons x xs)
  show ?case
  proof (cases "P x")
    case True
    then have "findIndexFrom P (x # xs) k = k + int 0 \<and> 0 < length (x # xs) \<and> P ((x # xs) ! 0)
        \<and> (\<forall>j<0. \<not> P ((x # xs) ! j))" by simp
    then show ?thesis by blast
  next
    case False
    from Cons.prems have k1: "0 \<le> k + 1" by simp
    from Cons.IH[OF k1] show ?thesis
    proof
      assume "findIndexFrom P xs (k + 1) = - 1 \<and> (\<forall>x\<in>set xs. \<not> P x)"
      with False show ?thesis by simp
    next
      assume "\<exists>n. findIndexFrom P xs (k + 1) = k + 1 + int n \<and> n < length xs \<and> P (xs ! n)
                \<and> (\<forall>j<n. \<not> P (xs ! j))"
      then obtain n where n: "findIndexFrom P xs (k + 1) = k + 1 + int n" "n < length xs"
          "P (xs ! n)" "\<forall>j<n. \<not> P (xs ! j)" by blast
      have "\<forall>j<Suc n. \<not> P ((x # xs) ! j)"
        using n(4) False by (simp add: nth_Cons split: nat.split)
      with n False have "findIndexFrom P (x # xs) k = k + int (Suc n) \<and> Suc n < length (x # xs)
          \<and> P ((x # xs) ! Suc n) \<and> (\<forall>j<Suc n. \<not> P ((x # xs) ! j))" by simp
      then show ?thesis by blast
    qed
  qed
qed

lemma findIndex_cases:
  "findIndex P xs = -1 \<and> (\<forall>x\<in>set xs. \<not> P x) \<or>
   (\<exists>n. findIndex P xs = int n \<and> n < length xs \<and> P (xs ! n) \<and> (\<forall>j<n. \<not> P (xs ! j)))"
  using findIndexFrom_cases[of 0 P xs] by (simp add: findIndex_def)

lemma findIndex_missing: "\<forall>x\<in>set xs. \<not> P x \<Longrightarrow> findIndex P xs = -1"
  using findIndex_cases[of P xs] by (metis nth_mem)

lemma findIndex_found:
  "\<exists>x\<in>set xs. P x \<Longrightarrow>
   \<exists>n. findIndex P xs = int n \<and> n < length xs \<and> P (xs ! n) \<and> (\<forall>j<n. \<not> P (xs ! j))"
  using findIndex_cases[of P xs] by blast

lemma spliceRemove_nth:
  "j < length xs - 1 \<Longrightarrow> spliceRemove k xs ! j = (if j < k then xs ! j else xs ! Suc j)"
  by (auto simp: spliceRemove_def nth_append min_def)

lemma length_spliceRemove: "k < length xs \<Longrightarrow> length (spliceRemove k xs) = length xs - 1"
  by (auto simp: spliceRemove_def)

lemma move_core:
  assumes "di < length xs" "ti < length xs" "di \<noteq> ti"
  defines "fi \<equiv> (if di < ti then ti - 1 else ti)"
  defines "r \<equiv> spliceInsert fi (xs ! di) (spliceRemove di xs)"
  shows "length r = length xs" "Suc fi < length xs" "r ! fi = xs ! di" "r ! Suc fi = xs ! ti"
        "spliceRemove fi r = spliceRemove di xs"
proof -
  let ?ys = "spliceRemove di xs"
  have ly: "length ?ys = length xs - 1" using assms(1) by (rule length_spliceRemove)
  have fi: "fi < length ?ys" using assms(1-3) ly by (auto simp: fi_def)
  show "length r = length xs" using assms(1) ly by (simp add: r_def spliceInsert_def)
  show "Suc fi < length xs" using fi ly by simp
  have lt: "length (take fi ?ys) = fi" using fi by simp
  show "r ! fi = xs ! di"
    unfolding r_def spliceInsert_def using lt by (simp add: nth_append)
  have "r ! Suc fi = ?ys ! fi"
    unfolding r_def spliceInsert_def using lt fi by (simp add: nth_append)
  also have "\<dots> = xs ! ti"
    using spliceRemove_nth[of fi xs di] fi ly assms(1-3) by (auto simp: fi_def)
  finally show "r ! Suc fi = xs ! ti" .
  show "spliceRemove fi r = ?ys"
    unfolding r_def spliceInsert_def spliceRemove_def[of fi] using lt fi by simp
qed

lemma handleReorderImages_moved:
  assumes "findIndex (\<lambda>t. image_id t = draggedId) prev = int di" "di < length prev"
      and "findIndex (\<lambda>t. image_id t = droppedOnId) prev = int ti" "ti < length prev"
      and "di \<noteq> ti"
  shows "handleReorderImages draggedId droppedOnId prev =
           spliceInsert (if di < ti then ti - 1 else ti) (prev ! di) (spliceRemove di prev)"
  using assms by (auto simp: handleReorderImages_def Let_def nat_diff_distrib')

lemma filter_spliceRemove:
  "k < length xs \<Longrightarrow> \<not> P (xs ! k) \<Longrightarrow> filter P (spliceRemove k xs) = filter P xs"
proof -
  assume k: "k < length xs" and np: "\<not> P (xs ! k)"
  have "xs = take k xs @ xs ! k # drop (Suc k) xs" using k by (rule id_take_nth_drop)
  then have "filter P xs = filter P (take k xs @ xs ! k # drop (Suc k) xs)" by simp
  also have "\<dots> = filter P (take k xs) @ filter P (drop (Suc k) xs)" using np by simp
  finally show ?thesis by (simp add: spliceRemove_def)
qed

lemma filter_spliceInsert:
  "\<not> P x \<Longrightarrow> filter P (spliceInsert k x ys) = filter P ys"
proof -
  assume np: "\<not> P x"
  have "filter P (spliceInsert k x ys) = filter P (take k ys) @ filter P (drop k ys)"
    using np by (simp add: spliceInsert_def)
  also have "\<dots> = filter P (take k ys @ drop k ys)" by (simp only: filter_append)
  also have "\<dots> = filter P ys" by (simp only: append_take_drop_id)
  finally show ?thesis .
qed

lemma handleReorderImages_same: "handleReorderImages d d prev = prev"
  by (simp add: handleReorderImages_def)

lemma handleReorderImages_missing:
  "d \<notin> image_id ` set prev \<or> t \<notin> image_id ` set prev \<Longrightarrow> handleReorderImages d t prev = prev"
proof -
  assume "d \<notin> image_id ` set prev \<or> t \<notin> image_id ` set prev"
  then have "findIndex (\<lambda>x. image_id x = d) prev = -1 \<or> findIndex (\<lambda>x. image_id x = t) prev = -1"
    using findIndex_missing[of prev "\<lambda>x. image_id x = d"]
          findIndex_missing[of prev "\<lambda>x. image_id x = t"] by auto
  then show ?thesis by (auto simp: handleReorderImages_def Let_def)
qed

lemma handleReorderImages_indices:
  assumes "d \<in> image_id ` set prev" "t \<in> image_id ` set prev" "d \<noteq> t"
  obtains di ti where
    "findIndex (\<lambda>x. image_id x = d) prev = int di" "di < length prev" "image_id (prev ! di) = d"
    "findIndex (\<lambda>x. image_id x = t) prev = int ti" "ti < length prev" "image_id (prev ! ti) = t"
    "di \<noteq> ti"
proof -
  from assms(1) have "\<exists>x\<in>set prev. image_id x = d" by auto
  from findIndex_found[of prev "\<lambda>x. image_id x = d", OF this]
  obtain di where di: "findIndex (\<lambda>x. image_id x = d) prev = int di" "di < length prev"
      "image_id (prev ! di) = d" by blast
  from assms(2) have "\<exists>x\<in>set prev. image_id x = t" by auto
  from findIndex_found[of prev "\<lambda>x. image_id x = t", OF this]
  obtain ti where ti: "findIndex (\<lambda>x. image_id x = t) prev = int ti" "ti < length prev"
      "image_id (prev ! ti) = t" by blast
  from di(3) ti(3) assms(3) have "di \<noteq> ti" by auto
  with di ti that show thesis by blast
qed

lemma handleReorderImages_filter:
  "filter (\<lambda>x. image_id x \<noteq> d) (handleReorderImages d t prev) = filter (\<lambda>x. image_id x \<noteq> d) prev"
proof (cases "d \<in> image_id ` set prev \<and> t \<in> image_id ` set prev \<and> d \<noteq> t")
  case False
  then have "d = t \<or> (d \<notin> image_id ` set prev \<or> t \<notin> image_id ` set prev)" by blast
  then have "handleReorderImages d t prev = prev"
  proof
    assume "d = t" then show ?thesis by (simp add: handleReorderImages_same)
  next
    assume "d \<notin> image_id ` set prev \<or> t \<notin> image_id ` set prev"
    then show ?thesis by (rule handleReorderImages_missing)
  qed
  then show ?thesis by simp
next
  case True
  then have h: "d \<in> image_id ` set prev" "t \<in> image_id ` set prev" "d \<noteq> t" by simp_all
  obtain di ti where
    i: "findIndex (\<lambda>x. image_id x = d) prev = int di" "di < length prev" "image_id (prev ! di) = d"
       "findIndex (\<lambda>x. image_id x = t) prev = int ti" "ti < length prev" "di \<noteq> ti"
    by (rule handleReorderImages_indices[OF h])
  have "handleReorderImages d t prev =
          spliceInsert (if di < ti then ti - 1 else ti) (prev ! di) (spliceRemove di prev)"
    using i by (intro handleReorderImages_moved)
  moreover have "\<not> (\<lambda>x. image_id x \<noteq> d) (prev ! di)" using i(3) by simp
  ultimately show ?thesis
    using filter_spliceInsert[of "\<lambda>x. image_id x \<noteq> d" "prev ! di"]
          filter_spliceRemove[of di prev "\<lambda>x. image_id x \<noteq> d"] i(2) by simp
qed

text \<open>
  Claim C7. \<open>reorder(draggedId, targetId)\<close> is the identity when the two ids are equal or
  when one of them is the id of no layer. In every case the layers other than the dragged
  one keep their order: the list without the layers of the dragged id is unchanged, and when
  a layer is moved, taking the moved layer out of the result gives the old list without it.
\<close>

theorem handleReorderImages_noop_stable:
  "(draggedId = droppedOnId \<longrightarrow> handleReorderImages draggedId droppedOnId prev = prev) \<and>
   (draggedId \<notin> image_id ` set prev \<or> droppedOnId \<notin> image_id ` set prev \<longrightarrow>
      handleReorderImages draggedId droppedOnId prev = prev) \<and>
   filter (\<lambda>x. image_id x \<noteq> draggedId) (handleReorderImages draggedId droppedOnId prev)
     = filter (\<lambda>x. image_id x \<noteq> draggedId) prev \<and>
   (draggedId \<in> image_id ` set prev \<and> droppedOnId \<in> image_id ` set prev \<and> draggedId \<noteq> droppedOnId \<longrightarrow>
      (\<exists>k<length prev.
          handleReorderImages draggedId droppedOnId prev ! k
            = prev ! nat (findIndex (\<lambda>x. image_id x = draggedId) prev) \<and>
          spliceRemove k (handleReorderImages draggedId droppedOnId prev)
            = spliceRemove (nat (findIndex (\<lambda>x. image_id x = draggedId) prev)) prev))"
proof (intro conjI impI)
  assume "draggedId = droppedOnId"
  then show "handleReorderImages draggedId droppedOnId prev = prev"
    by (simp add: handleReorderImages_same)
next
  assume "draggedId \<notin> image_id ` set prev \<or> droppedOnId \<notin> image_id ` set prev"
  then show "handleReorderImages draggedId droppedOnId prev = prev"
    by (rule handleReorderImages_missing)
next
  show "filter (\<lambda>x. image_id x \<noteq> draggedId) (handleReorderImages draggedId droppedOnId prev)
     = filter (\<lambda>x. image_id x \<noteq> draggedId) prev" by (rule handleReorderImages_filter)
next
  assume "draggedId \<in> image_id ` set prev \<and> droppedOnId \<in> image_id ` set prev \<and> draggedId \<noteq> droppedOnId"
  then have h: "draggedId \<in> image_id ` set prev" "droppedOnId \<in> image_id ` set prev"
      "draggedId \<noteq> droppedOnId" by simp_all
  obtain di ti where
    i: "findIndex (\<lambda>x. image_id x = draggedId) prev = int di" "di < length prev"
       "findIndex (\<lambda>x. image_id x = droppedOnId) prev = int ti" "ti < length prev" "di \<noteq> ti"
    by (rule handleReorderImages_indices[OF h])
  let ?fi = "if di < ti then ti - 1 else ti"
  have r: "handleReorderImages draggedId droppedOnId prev =
          spliceInsert ?fi (prev ! di) (spliceRemove di prev)"
    using i by (intro handleReorderImages_moved)
  from move_core[OF i(2) i(4) i(5)] r i(1)
  have "?fi < length prev \<and> handleReorderImages draggedId droppedOnId prev ! ?fi
            = prev ! nat (findIndex (\<lambda>x. image_id x = draggedId) prev) \<and>
        spliceRemove ?fi (handleReorderImages draggedId droppedOnId prev)
            = spliceRemove (nat (findIndex (\<lambda>x. image_id x = draggedId) prev)) prev"
    by simp
  then show "\<exists>k<length prev.
          handleReorderImages draggedId droppedOnId prev ! k
            = prev ! nat (findIndex (\<lambda>x. image_id x = draggedId) prev) \<and>
          spliceRemove k (handleReorderImages draggedId droppedOnId prev)
            = spliceRemove (nat (findIndex (\<lambda>x. image_id x = draggedId) prev)) prev"
    by blast
qed

theorem handleReorderImages_noop_stable_witness:
  "handleReorderImages ''a'' ''a''
     [placeholderImage ''a'' ''a.png'', placeholderImage ''b'' ''b.png'', placeholderImage ''c'' ''c.png'']
   = [placeholderImage ''a'' ''a.png'', placeholderImage ''b'' ''b.png'', placeholderImage ''c'' ''c.png''] \<and>
   ''z'' \<notin> image_id ` set [placeholderImage ''a'' ''a.png'', placeholderImage ''b'' ''b.png'',
                           placeholderImage ''c'' ''c.png''] \<and>
   handleReorderImages ''z'' ''a''
     [placeholderImage ''a'' ''a.png'', placeholderImage ''b'' ''b.png'', placeholderImage ''c'' ''c.png'']
   = [placeholderImage ''a'' ''a.png'', placeholderImage ''b'' ''b.png'', placeholderImage ''c'' ''c.png''] \<and>
   ''a'' \<in> image_id ` set [placeholderImage ''a'' ''a.png'', placeholderImage ''b'' ''b.png'',
                          placeholderImage ''c'' ''c.png''] \<and>
   ''c'' \<in> image_id ` set [placeholderImage ''a'' ''a.png'', placeholderImage ''b'' ''b.png'',
                          placeholderImage ''c'' ''c.png''] \<and>
   handleReorderImages ''a'' ''c''
     [placeholderImage ''a'' ''a.png'', placeholderImage ''b'' ''b.png'', placeholderImage ''c'' ''c.png'']
   = [placeholderImage ''b'' ''b.png'', placeholderImage ''a'' ''a.png'', placeholderImage ''c'' ''c.png''] \<and>
   filter (\<lambda>x. image_id x \<noteq> ''a'')
     (handleReorderImages ''a'' ''c''
        [placeholderImage ''a'' ''a.png'', placeholderImage ''b'' ''b.png'', placeholderImage ''c'' ''c.png''])
   = [placeholderImage ''b'' ''b.png'', placeholderImage ''c'' ''c.png'']"
proof -
  let ?L = "[placeholderImage ''a'' ''a.png'', placeholderImage ''b'' ''b.png'',
             placeholderImage ''c'' ''c.png'']"
  have moved: "handleReorderImages ''a'' ''c'' ?L
      = [placeholderImage ''b'' ''b.png'', placeholderImage ''a'' ''a.png'',
         placeholderImage ''c'' ''c.png'']"
    by (simp add: handleReorderImages_def findIndex_def spliceRemove_def spliceInsert_def
        placeholderImage_def)
  have flt: "filter (\<lambda>x. image_id x \<noteq> ''a'') ?L
      = [placeholderImage ''b'' ''b.png'', placeholderImage ''c'' ''c.png'']"
    by (simp add: placeholderImage_def)
  have nz: "''z'' \<notin> image_id ` set ?L" by (simp add: placeholderImage_def)
  have ina: "''a'' \<in> image_id ` set ?L" and inc: "''c'' \<in> image_id ` set ?L"
    by (simp_all add: placeholderImage_def)
  from handleReorderImages_noop_stable [of "''a''" "''a''" ?L]
  have c1: "handleReorderImages ''a'' ''a'' ?L = ?L" by blast
  from handleReorderImages_noop_stable [of "''z''" "''a''" ?L] nz
  have c2: "handleReorderImages ''z'' ''a'' ?L = ?L" by blast
  from handleReorderImages_noop_stable [of "''a''" "''c''" ?L]
  have "filter (\<lambda>x. image_id x \<noteq> ''a'') (handleReorderImages ''a'' ''c'' ?L)
      = filter (\<lambda>x. image_id x \<noteq> ''a'') ?L" by blast
  with flt have c3: "filter (\<lambda>x. image_id x \<noteq> ''a'') (handleReorderImages ''a'' ''c'' ?L)
      = [placeholderImage ''b'' ''b.png'', placeholderImage ''c'' ''c.png'']" by simp
  from c1 c2 nz ina inc moved c3 show ?thesis by blast
qed

text \<open>
  Claim C9. Whenever \<open>reorder(draggedId, targetId)\<close> moves a layer (both ids present and
  distinct), the dragged layer ends up immediately before the drop-target layer in the
  resulting order, whether it was dragged from an earlier or from a later index.
\<close>

theorem handleReorderImages_before_target:
  "draggedId \<in> image_id ` set prev \<and> droppedOnId \<in> image_id ` set prev \<and> draggedId \<noteq> droppedOnId \<longrightarrow>
     (\<exists>k. Suc k < length (handleReorderImages draggedId droppedOnId prev) \<and>
          handleReorderImages draggedId droppedOnId prev ! k
            = prev ! nat (findIndex (\<lambda>x. image_id x = draggedId) prev) \<and>
          handleReorderImages draggedId droppedOnId prev ! Suc k
            = prev ! nat (findIndex (\<lambda>x. image_id x = droppedOnId) prev) \<and>
          image_id (handleReorderImages draggedId droppedOnId prev ! k) = draggedId \<and>
          image_id (handleReorderImages draggedId droppedOnId prev ! Suc k) = droppedOnId)"
proof
  assume "draggedId \<in> image_id ` set prev \<and> droppedOnId \<in> image_id ` set prev \<and> draggedId \<noteq> droppedOnId"
  then have h: "draggedId \<in> image_id ` set prev" "droppedOnId \<in> image_id ` set prev"
      "draggedId \<noteq> droppedOnId" by simp_all
  obtain di ti where
    i: "findIndex (\<lambda>x. image_id x = draggedId) prev = int di" "di < length prev"
       "image_id (prev ! di) = draggedId"
       "findIndex (\<lambda>x. image_id x = droppedOnId) prev = int ti" "ti < length prev"
       "image_id (prev ! ti) = droppedOnId" "di \<noteq> ti"
    by (rule handleReorderImages_indices[OF h])
  let ?fi = "if di < ti then ti - 1 else ti"
  have r: "handleReorderImages draggedId droppedOnId prev =
          spliceInsert ?fi (prev ! di) (spliceRemove di prev)"
    using i by (intro handleReorderImages_moved)
  from move_core[OF i(2) i(5) i(7)] r i
  have "Suc ?fi < length (handleReorderImages draggedId droppedOnId prev) \<and>
        handleReorderImages draggedId droppedOnId prev ! ?fi
            = prev ! nat (findIndex (\<lambda>x. image_id x = draggedId) prev) \<and>
        handleReorderImages draggedId droppedOnId prev ! Suc ?fi
            = prev ! nat (findIndex (\<lambda>x. image_id x = droppedOnId) prev) \<and>
        image_id (handleReorderImages draggedId droppedOnId prev ! ?fi) = draggedId \<and>
        image_id (handleReorderImages draggedId droppedOnId prev ! Suc ?fi) = droppedOnId"
    by simp
  then show "\<exists>k. Suc k < length (handleReorderImages draggedId droppedOnId prev) \<and>
          handleReorderImages draggedId droppedOnId prev ! k
            = prev ! nat (findIndex (\<lambda>x. image_id x = draggedId) prev) \<and>
          handleReorderImages draggedId droppedOnId prev ! Suc k
            = prev ! nat (findIndex (\<lambda>x. image_id x = droppedOnId) prev) \<and>
          image_id (handleReorderImages draggedId droppedOnId prev ! k) = draggedId \<and>
          image_id (handleReorderImages draggedId droppedOnId prev ! Suc k) = droppedOnId"
    by blast
qed

theorem handleReorderImages_before_target_witness:
  "''a'' \<in> image_id ` set [placeholderImage ''a'' ''a.png'', placeholderImage ''b'' ''b.png'',
                          placeholderImage ''c'' ''c.png''] \<and>
   ''c'' \<in> image_id ` set [placeholderImage ''a'' ''a.png'', placeholderImage ''b'' ''b.png'',
                          placeholderImage ''c'' ''c.png''] \<and>
   ''a'' \<noteq> ''c'' \<and>
   handleReorderImages ''a'' ''c''
     [placeholderImage ''a'' ''a.png'', placeholderImage ''b'' ''b.png'', placeholderImage ''c'' ''c.png'']
   = [placeholderImage ''b'' ''b.png'', placeholderImage ''a'' ''a.png'', placeholderImage ''c'' ''c.png''] \<and>
   handleReorderImages ''c'' ''a''
     [placeholderImage ''a'' ''a.png'', placeholderImage ''b'' ''b.png'', placeholderImage ''c'' ''c.png'']
   = [placeholderImage ''c'' ''c.png'', placeholderImage ''a'' ''a.png'', placeholderImage ''b'' ''b.png''] \<and>
   (\<exists>k. Suc k < 3 \<and>
        image_id (handleReorderImages ''c'' ''a''
          [placeholderImage ''a'' ''a.png'', placeholderImage ''b'' ''b.png'',
           placeholderImage ''c'' ''c.png''] ! k) = ''c'' \<and>
        image_id (handleReorderImages ''c'' ''a''
          [placeholderImage ''a'' ''a.png'', placeholderImage ''b'' ''b.png'',
           placeholderImage ''c'' ''c.png''] ! Suc k) = ''a'')"
proof -
  let ?L = "[placeholderImage ''a'' ''a.png'', placeholderImage ''b'' ''b.png'',
             placeholderImage ''c'' ''c.png'']"
  have ids: "image_id ` set ?L = {''a'', ''b'', ''c''}"
    by (simp add: placeholderImage_def)
  have fwd: "handleReorderImages ''a'' ''c'' ?L
      = [placeholderImage ''b'' ''b.png'', placeholderImage ''a'' ''a.png'',
         placeholderImage ''c'' ''c.png'']"
    by (simp add: handleReorderImages_def findIndex_def spliceRemove_def spliceInsert_def
        placeholderImage_def)
  have bwd: "handleReorderImages ''c'' ''a'' ?L
      = [placeholderImage ''c'' ''c.png'', placeholderImage ''a'' ''a.png'',
         placeholderImage ''b'' ''b.png'']"
    by (simp add: handleReorderImages_def findIndex_def spliceRemove_def spliceInsert_def
        placeholderImage_def)
  have len: "length (handleReorderImages ''c'' ''a'' ?L) = 3" by (simp add: bwd)
  from handleReorderImages_before_target [of "''c''" ?L "''a''"] ids
  have "\<exists>k. Suc k < length (handleReorderImages ''c'' ''a'' ?L) \<and>
          image_id (handleReorderImages ''c'' ''a'' ?L ! k) = ''c'' \<and>
          image_id (handleReorderImages ''c'' ''a'' ?L ! Suc k) = ''a''"
    by simp blast
  with len have "\<exists>k. Suc k < 3 \<and>
          image_id (handleReorderImages ''c'' ''a'' ?L ! k) = ''c'' \<and>
          image_id (handleReorderImages ''c'' ''a'' ?L ! Suc k) = ''a''"
    by simp
  with ids fwd bwd show ?thesis by simp
qed

section \<open>Properties of the clip buffer\<close>

lemma length_clipStep: "length (clipStep raw i d) = length d"
  by (simp add: clipStep_def Let_def)

lemma length_clip_fold: "length (fold (clipStep raw) [0..<m] d) = length d"
  by (induction m) (simp_all add: length_clipStep)

lemma alpha_index: "(k = 4 * m + 3) = (k mod 4 = 3 \<and> k div 4 = m)" for k m :: nat
  by presburger

lemma nth_list_update_total:
  "xs[j := v] ! k = (if k = j \<and> j < length xs then v else xs ! k)"
proof (cases "j < length xs")
  case True
  then show ?thesis by (simp add: nth_list_update)
next
  case False
  then have "xs[j := v] = xs" by (intro list_update_beyond) simp
  with False show ?thesis by simp
qed

lemma clip_fold_nth:
  "fold (clipStep raw) [0..<m] d ! k =
     (if k < length d \<and> k mod 4 = 3 \<and> k div 4 < m \<and> js_eq (raw ! (k div 4)) (Fin 1)
      then 0 else d ! k)"
proof (induction m)
  case 0
  then show ?case by simp
next
  case (Suc m)
  let ?d = "fold (clipStep raw) [0..<m] d"
  have l: "length ?d = length d" by (rule length_clip_fold)
  have "fold (clipStep raw) [0..<Suc m] d ! k = clipStep raw m ?d ! k" by simp
  also have "\<dots> = (if js_eq (raw ! m) (Fin 1) \<and> k = 4 * m + 3 \<and> k < length d then 0 else ?d ! k)"
    using l by (simp add: clipStep_def Let_def nth_list_update_total)
  also have "\<dots> = (if k < length d \<and> k mod 4 = 3 \<and> k div 4 < Suc m \<and> js_eq (raw ! (k div 4)) (Fin 1)
      then 0 else d ! k)"
    unfolding Suc.IH alpha_index by (auto simp: less_Suc_eq)
  finally show ?case .
qed

lemma clipOverlay_nth:
  "clipOverlay raw d ! k =
     (if k < length d \<and> k mod 4 = 3 \<and> k div 4 < length raw \<and> js_eq (raw ! (k div 4)) (Fin 1)
      then 0 else d ! k)"
  by (simp add: clipOverlay_def clip_fold_nth)

lemma length_clipOverlay: "length (clipOverlay raw d) = length d"
  by (simp add: clipOverlay_def length_clip_fold)

text \<open>The canvas store, pixel by pixel: the alpha byte is kept, and the colour bytes are 0
  at alpha 0 and requantized elsewhere.\<close>

lemma putImageData_pixels:
  "length d = 4 * m \<Longrightarrow>
   length (putImageData q d) = 4 * m \<and>
   (\<forall>p<m. putImageData q d ! (4 * p + 3) = d ! (4 * p + 3) \<and>
      (\<forall>c<3. putImageData q d ! (4 * p + c) =
         (if d ! (4 * p + 3) = 0 then 0 else q (d ! (4 * p + c)) (d ! (4 * p + 3)))))"
proof (induction m arbitrary: d)
  case 0
  then show ?case by simp
next
  case (Suc m)
  from Suc.prems obtain r g b a rest where d: "d = r # g # b # a # rest" and l: "length rest = 4 * m"
    by (cases d; simp; cases "tl d"; simp; cases "tl (tl d)"; simp; cases "tl (tl (tl d))"; simp)
  let ?px = "if a = 0 then [0, 0, 0, 0] else [q r a, q g a, q b a, a]"
  have px: "length ?px = 4" by simp
  have put: "putImageData q d = ?px @ putImageData q rest" by (simp add: d)
  note IH = Suc.IH[OF l]
  have len: "length (putImageData q d) = 4 * Suc m" using IH put px by simp
  have later: "putImageData q d ! (4 + k) = putImageData q rest ! k" for k
    unfolding put using px by (simp add: nth_append)
  have dlater: "d ! (4 + k) = rest ! k" for k by (simp add: d)
  have "putImageData q d ! (4 * p + 3) = d ! (4 * p + 3) \<and>
      (\<forall>c<3. putImageData q d ! (4 * p + c) =
         (if d ! (4 * p + 3) = 0 then 0 else q (d ! (4 * p + c)) (d ! (4 * p + 3))))"
    if "p < Suc m" for p
  proof (cases p)
    case 0
    have "\<forall>c<3::nat. c = 0 \<or> c = 1 \<or> c = 2" by auto
    then show ?thesis unfolding 0 put d by auto
  next
    case (Suc p')
    with that have p': "p' < m" by simp
    have i3: "4 * p + 3 = 4 + (4 * p' + 3)" and ic: "4 * p + c = 4 + (4 * p' + c)" for c
      using Suc by simp_all
    from IH p' have "putImageData q rest ! (4 * p' + 3) = rest ! (4 * p' + 3) \<and>
      (\<forall>c<3. putImageData q rest ! (4 * p' + c) =
         (if rest ! (4 * p' + 3) = 0 then 0 else q (rest ! (4 * p' + c)) (rest ! (4 * p' + 3))))"
      by blast
    then show ?thesis unfolding i3 ic later dlater .
  qed
  with len show ?case by blast
qed

lemma storedValue_byte:
  "t = ''float32'' \<or> (\<exists>k<256. v = Fin (real k)) \<Longrightarrow> storedValue t v = v"
proof (cases "t = ''float32''")
  case True
  then show ?thesis by (simp add: storedValue_def)
next
  case False
  assume "t = ''float32'' \<or> (\<exists>k<256. v = Fin (real k))"
  with False obtain k :: nat where k: "k < 256" "v = Fin (real k)" by blast
  have "\<lfloor>real k\<rfloor> mod 256 = int k" using k(1) by simp
  then show ?thesis using k False by (simp add: storedValue_def toUint8_def)
qed

lemma extractMask_nth:
  assumes "(Suc b) * sz \<le> length (t_data t)" "p < sz"
  shows "extractMask t b sz ! p = storedValue (t_type t) (t_data t ! (b * sz + p))"
        "length (extractMask t b sz) = sz"
proof -
  have l: "length (slice (b * sz) (b * sz + sz) (t_data t)) = sz"
    using assms(1) by (simp add: slice_def)
  then show "length (extractMask t b sz) = sz" by (simp add: extractMask_def typedArraySet_def Let_def)
  show "extractMask t b sz ! p = storedValue (t_type t) (t_data t ! (b * sz + p))"
    using l assms by (simp add: extractMask_def typedArraySet_def Let_def nth_append slice_def)
qed

lemma checkedBestIndex_less: "0 < n \<Longrightarrow> checkedBestIndex scores n < n"
  by (simp add: checkedBestIndex_def Let_def)

lemma checkedBestIndex_winner:
  assumes "0 < n" "length scores \<le> n"
  shows "checkedBestIndex scores n = selectBestIndex scores"
proof -
  have "selectBestIndex scores < n"
  proof (cases "scores = []")
    case True
    then show ?thesis using assms(1) by (simp add: selectBestIndex_def)
  next
    case False
    with selectBestIndex_spec[of scores] have "selectBestIndex scores < length scores" by blast
    with assms(2) show ?thesis by simp
  qed
  then show ?thesis by (simp add: checkedBestIndex_def Let_def)
qed

lemma buildMaskData_Inr:
  assumes "buildMaskData q originalImageElement scores (t # rest) = Inr md"
  shows "length (squeezedDims t) = 3"
    "squeezedDims t ! 2 \<noteq> 0" "squeezedDims t ! 1 \<noteq> 0"
    "clippingOverlayCanvas md = Some
       \<lparr>canvasWidth = squeezedDims t ! 2, canvasHeight = squeezedDims t ! 1,
        rgbaData = putImageData q (clipOverlay
          (extractMask t (checkedBestIndex scores (squeezedDims t ! 0))
             (squeezedDims t ! 1 * squeezedDims t ! 2))
          (originalImageElement (squeezedDims t ! 2) (squeezedDims t ! 1)))\<rparr>"
  using assms
  by (auto simp: buildMaskData_def squeezedDims_def Let_def split: if_splits)

text \<open>
  Claim C1, as amended. For the clip buffer of a successful segmentation, on a mask tensor
  of shape \<open>[n, h, w]\<close> (after the squeeze) that holds its \<open>n\<close> planes, with at most
  one score per plane, and a base image that rasterises to \<open>w * h\<close> pixels: the buffer has
  the mask's size; at every pixel the alpha is 0 where the winning candidate's mask value,
  as the mask array holds it, equals 1, and the alpha of the rasterised base image
  elsewhere, so it is 0 if and only if that mask value is 1 or the base image is fully
  transparent there. The mask array holds the value of a float32 tensor as it is and the
  value of any other tensor converted to an unsigned byte, which changes no byte value
  (0 and 1 included). The colour bytes are 0 where the alpha is 0 and those of the
  rasterised base image, through the canvas's premultiplied store, elsewhere.
\<close>

theorem buildMaskData_clip_alpha:
  assumes "buildMaskData requantize originalImageElement scores (t # rest) = Inr md"
      and "squeezedDims t = [n, h, w]"
      and "0 < n" and "length scores \<le> n"
      and "length (t_data t) = n * (h * w)"
      and "length (originalImageElement w h) = 4 * (w * h)"
  shows "\<exists>clip. clippingOverlayCanvas md = Some clip \<and>
           canvasWidth clip = w \<and> canvasHeight clip = h \<and>
           length (rgbaData clip) = 4 * (w * h) \<and>
           (\<forall>p<w * h.
              rgbaData clip ! (4 * p + 3) =
                (if js_eq (storedValue (t_type t)
                             (t_data t ! (selectBestIndex scores * (h * w) + p))) (Fin 1)
                 then 0 else originalImageElement w h ! (4 * p + 3)) \<and>
              ((rgbaData clip ! (4 * p + 3) = 0) =
                 (js_eq (storedValue (t_type t)
                           (t_data t ! (selectBestIndex scores * (h * w) + p))) (Fin 1)
                  \<or> originalImageElement w h ! (4 * p + 3) = 0)) \<and>
              (\<forall>c<3. rgbaData clip ! (4 * p + c) =
                 (if rgbaData clip ! (4 * p + 3) = 0 then 0
                  else requantize (originalImageElement w h ! (4 * p + c))
                         (originalImageElement w h ! (4 * p + 3))))) \<and>
           (\<forall>v. t_type t = ''float32'' \<or> (\<exists>k<256. v = Fin (real k)) \<longrightarrow>
                storedValue (t_type t) v = v)"
proof -
  let ?b = "selectBestIndex scores"
  let ?raw = "extractMask t ?b (h * w)"
  let ?base = "originalImageElement w h"
  let ?data = "clipOverlay ?raw ?base"
  let ?clip = "\<lparr>canvasWidth = w, canvasHeight = h, rgbaData = putImageData requantize ?data\<rparr>"
  let ?m = "\<lambda>p. storedValue (t_type t) (t_data t ! (?b * (h * w) + p))"
  have bw: "checkedBestIndex scores n = ?b" by (rule checkedBestIndex_winner[OF assms(3,4)])
  from buildMaskData_Inr(4)[OF assms(1)] assms(2) bw
  have c: "clippingOverlayCanvas md = Some ?clip" by simp
  have "Suc ?b \<le> n" using checkedBestIndex_less[OF assms(3), of scores] bw by simp
  then have "Suc ?b * (h * w) \<le> n * (h * w)" by (rule mult_le_mono1)
  then have fits: "Suc ?b * (h * w) \<le> length (t_data t)" using assms(5) by simp
  have lraw: "length ?raw = h * w"
  proof (cases "h * w = 0")
    case True
    then show ?thesis by (simp add: extractMask_def typedArraySet_def slice_def Let_def)
  next
    case False
    then have "0 < h * w" by simp
    from extractMask_nth(2)[OF fits this] show ?thesis .
  qed
  have ldata: "length ?data = 4 * (w * h)" using assms(6) by (simp add: length_clipOverlay)
  have dpx: "?data ! (4 * p + 3) = (if js_eq (?m p) (Fin 1) then 0 else ?base ! (4 * p + 3))"
       "\<forall>c<3. ?data ! (4 * p + c) = ?base ! (4 * p + c)" if p: "p < w * h" for p
  proof -
    from p have p': "p < h * w" by (simp add: mult.commute)
    have r: "?raw ! p = ?m p" by (rule extractMask_nth(1)[OF fits p'])
    have k: "4 * p + 3 < length ?base" using p assms(6) by simp
    have m: "(4 * p + 3) mod 4 = 3" "(4 * p + 3) div 4 = p" by simp_all
    show "?data ! (4 * p + 3) = (if js_eq (?m p) (Fin 1) then 0 else ?base ! (4 * p + 3))"
      unfolding clipOverlay_nth m using k p' lraw r by simp
    show "\<forall>c<3. ?data ! (4 * p + c) = ?base ! (4 * p + c)"
    proof (intro allI impI)
      fix c :: nat assume "c < 3"
      then have "(4 * p + c) mod 4 \<noteq> 3" by simp
      then show "?data ! (4 * p + c) = ?base ! (4 * p + c)"
        unfolding clipOverlay_nth by simp
    qed
  qed
  note put = putImageData_pixels[OF ldata, of requantize]
  have px: "\<forall>p<w * h.
              rgbaData ?clip ! (4 * p + 3) =
                (if js_eq (?m p) (Fin 1) then 0 else ?base ! (4 * p + 3)) \<and>
              ((rgbaData ?clip ! (4 * p + 3) = 0) =
                 (js_eq (?m p) (Fin 1) \<or> ?base ! (4 * p + 3) = 0)) \<and>
              (\<forall>c<3. rgbaData ?clip ! (4 * p + c) =
                 (if rgbaData ?clip ! (4 * p + 3) = 0 then 0
                  else requantize (?base ! (4 * p + c)) (?base ! (4 * p + 3))))"
  proof (intro allI impI)
    fix p assume p: "p < w * h"
    from put p have a: "putImageData requantize ?data ! (4 * p + 3) = ?data ! (4 * p + 3)"
      and cs: "\<forall>c<3. putImageData requantize ?data ! (4 * p + c) =
         (if ?data ! (4 * p + 3) = 0 then 0
          else requantize (?data ! (4 * p + c)) (?data ! (4 * p + 3)))"
      by blast+
    have al: "rgbaData ?clip ! (4 * p + 3) =
                (if js_eq (?m p) (Fin 1) then 0 else ?base ! (4 * p + 3))"
      using a dpx(1)[OF p] by simp
    have col: "\<forall>c<3. rgbaData ?clip ! (4 * p + c) =
                 (if rgbaData ?clip ! (4 * p + 3) = 0 then 0
                  else requantize (?base ! (4 * p + c)) (?base ! (4 * p + 3)))"
    proof (intro allI impI)
      fix c :: nat assume c: "c < 3"
      from cs c have "putImageData requantize ?data ! (4 * p + c) =
         (if ?data ! (4 * p + 3) = 0 then 0
          else requantize (?data ! (4 * p + c)) (?data ! (4 * p + 3)))" by blast
      moreover from dpx(2)[OF p] c have "?data ! (4 * p + c) = ?base ! (4 * p + c)" by blast
      ultimately show "rgbaData ?clip ! (4 * p + c) =
                 (if rgbaData ?clip ! (4 * p + 3) = 0 then 0
                  else requantize (?base ! (4 * p + c)) (?base ! (4 * p + 3)))"
        using a dpx(1)[OF p] by (simp split: if_splits)
    qed
    from al col show "rgbaData ?clip ! (4 * p + 3) =
                (if js_eq (?m p) (Fin 1) then 0 else ?base ! (4 * p + 3)) \<and>
              ((rgbaData ?clip ! (4 * p + 3) = 0) =
                 (js_eq (?m p) (Fin 1) \<or> ?base ! (4 * p + 3) = 0)) \<and>
              (\<forall>c<3. rgbaData ?clip ! (4 * p + c) =
                 (if rgbaData ?clip ! (4 * p + 3) = 0 then 0
                  else requantize (?base ! (4 * p + c)) (?base ! (4 * p + 3))))"
      by simp
  qed
  have dims: "canvasWidth ?clip = w \<and> canvasHeight ?clip = h \<and>
        length (rgbaData ?clip) = 4 * (w * h)"
    using put by simp
  have sv: "\<forall>v. t_type t = ''float32'' \<or> (\<exists>k<256. v = Fin (real k)) \<longrightarrow>
                storedValue (t_type t) v = v"
    using storedValue_byte by blast
  from c dims px sv show ?thesis by blast
qed

theorem buildMaskData_clip_alpha_witness:
  "buildMaskData nearestStore opaqueElement [Fin (1/2), Fin (9/10)]
     [boolTensor [1, 2, 1, 2] [Fin 0, Fin 0, Fin 1, Fin 0]]
   = Inr \<lparr>maskCanvas = Some \<lparr>canvasWidth = 2, canvasHeight = 1,
                              rgbaData = [0, 114, 189, 150, 0, 0, 0, 0]\<rparr>,
          clippingOverlayCanvas = Some \<lparr>canvasWidth = 2, canvasHeight = 1,
                              rgbaData = [0, 0, 0, 0, 255, 255, 255, 255]\<rparr>\<rparr> \<and>
   squeezedDims (boolTensor [1, 2, 1, 2] [Fin 0, Fin 0, Fin 1, Fin 0]) = [2, 1, 2] \<and>
   length [Fin (1/2), Fin (9/10)] \<le> (2::nat) \<and>
   length (t_data (boolTensor [1, 2, 1, 2] [Fin 0, Fin 0, Fin 1, Fin 0])) = 2 * (1 * 2) \<and>
   length (opaqueElement 2 1) = 4 * (2 * 1) \<and>
   selectBestIndex [Fin (1/2), Fin (9/10)] = 1 \<and>
   js_eq (storedValue (t_type (boolTensor [1, 2, 1, 2] [Fin 0, Fin 0, Fin 1, Fin 0]))
            (t_data (boolTensor [1, 2, 1, 2] [Fin 0, Fin 0, Fin 1, Fin 0]) ! (1 * (1 * 2) + 0)))
         (Fin 1) \<and>
   [0, 0, 0, 0, 255, 255, 255, 255 :: byte] ! (4 * 0 + 3) = 0 \<and>
   \<not> js_eq (storedValue (t_type (boolTensor [1, 2, 1, 2] [Fin 0, Fin 0, Fin 1, Fin 0]))
              (t_data (boolTensor [1, 2, 1, 2] [Fin 0, Fin 0, Fin 1, Fin 0]) ! (1 * (1 * 2) + 1)))
           (Fin 1) \<and>
   [0, 0, 0, 0, 255, 255, 255, 255 :: byte] ! (4 * 1 + 3) = opaqueElement 2 1 ! (4 * 1 + 3) \<and>
   opaqueElement 2 1 ! (4 * 1 + 3) = 255"
proof -
  let ?t = "boolTensor [1, 2, 1, 2] [Fin 0, Fin 0, Fin 1, Fin 0]"
  let ?s = "[Fin (1/2), Fin (9/10)]"
  let ?rgba = "[0, 0, 0, 0, 255, 255, 255, 255 :: byte]"
  let ?md = "\<lparr>maskCanvas = Some \<lparr>canvasWidth = 2, canvasHeight = 1,
                              rgbaData = [0, 114, 189, 150, 0, 0, 0, 0]\<rparr>,
          clippingOverlayCanvas = Some \<lparr>canvasWidth = 2, canvasHeight = 1,
                              rgbaData = ?rgba\<rparr>\<rparr>"
  have b': "checkedBestIndex ?s 2 = 1" by code_simp
  have raw: "extractMask ?t 1 2 = [Fin 1, Fin 0]"
    by (simp add: extractMask_def typedArraySet_def slice_def storedValue_def toUint8_def
        boolTensor_def)
  have blue: "blueOverlay [Fin 1, Fin 0] 2 1 = [0, 114, 189, 150, 0, 0, 0, 0]"
    by code_simp
  have clipd: "clipOverlay [Fin 1, Fin 0] (opaqueElement 2 1)
      = [255, 255, 255, 0, 255, 255, 255, 255]"
    by code_simp
  have st: "nearestStore 0 150 = 0" "nearestStore 114 150 = 114" "nearestStore 189 150 = 189"
    "nearestStore 255 255 = 255"
    by (simp_all add: nearestStore_def)
  have h1: "buildMaskData nearestStore opaqueElement ?s (?t # []) = Inr ?md"
    using b' raw blue clipd st
    by (simp add: buildMaskData_def squeeze0_def boolTensor_def)
  have h2: "squeezedDims ?t = [2, 1, 2]"
    by (simp add: squeezedDims_def boolTensor_def squeeze0_def)
  have h3: "0 < (2::nat)" by simp
  have h4: "length ?s \<le> (2::nat)" by simp
  have h5: "length (t_data ?t) = 2 * (1 * 2)" by (simp add: boolTensor_def)
  have h6: "length (opaqueElement 2 1) = 4 * (2 * 1)" by (simp add: opaqueElement_def)
  have b: "selectBestIndex ?s = 1" by code_simp
  have m0: "js_eq (storedValue (t_type ?t) (t_data ?t ! (1 * (1 * 2) + 0))) (Fin 1)"
    and m1: "\<not> js_eq (storedValue (t_type ?t) (t_data ?t ! (1 * (1 * 2) + 1))) (Fin 1)"
    by (simp_all add: boolTensor_def storedValue_def toUint8_def)
  have o: "opaqueElement 2 1 ! (4 * 1 + 3) = 255" by code_simp
  note all = buildMaskData_clip_alpha [OF h1 h2 h3 h4 h5 h6]
  from all obtain clip where A:
    "clippingOverlayCanvas ?md = Some clip \<and>
     canvasWidth clip = 2 \<and> canvasHeight clip = 1 \<and>
     length (rgbaData clip) = 4 * (2 * 1) \<and>
     (\<forall>p<2 * 1.
        rgbaData clip ! (4 * p + 3) =
          (if js_eq (storedValue (t_type ?t)
                       (t_data ?t ! (selectBestIndex ?s * (1 * 2) + p))) (Fin 1)
           then 0 else opaqueElement 2 1 ! (4 * p + 3)) \<and>
        ((rgbaData clip ! (4 * p + 3) = 0) =
           (js_eq (storedValue (t_type ?t)
                     (t_data ?t ! (selectBestIndex ?s * (1 * 2) + p))) (Fin 1)
            \<or> opaqueElement 2 1 ! (4 * p + 3) = 0)) \<and>
        (\<forall>c<3. rgbaData clip ! (4 * p + c) =
           (if rgbaData clip ! (4 * p + 3) = 0 then 0
            else nearestStore (opaqueElement 2 1 ! (4 * p + c))
                   (opaqueElement 2 1 ! (4 * p + 3))))) \<and>
     (\<forall>v. t_type ?t = ''float32'' \<or> (\<exists>k<256. v = Fin (real k)) \<longrightarrow>
          storedValue (t_type ?t) v = v)" ..
  from A have clip: "clippingOverlayCanvas ?md = Some clip" by (rule conjunct1)
  note px = A[THEN conjunct2, THEN conjunct2, THEN conjunct2, THEN conjunct2, THEN conjunct1,
              rule_format]
  from clip have rg: "rgbaData clip = ?rgba" by auto
  have q0: "(0::nat) < 2 * 1" and q1: "(1::nat) < 2 * 1" by simp_all
  from px[OF q0, THEN conjunct1] have "rgbaData clip ! (4 * 0 + 3) =
           (if js_eq (storedValue (t_type ?t)
                        (t_data ?t ! (selectBestIndex ?s * (1 * 2) + 0))) (Fin 1)
            then 0 else opaqueElement 2 1 ! (4 * 0 + 3))" .
  with m0 b rg have p0: "?rgba ! (4 * 0 + 3) = 0" by simp
  from px[OF q1, THEN conjunct1] have "rgbaData clip ! (4 * 1 + 3) =
           (if js_eq (storedValue (t_type ?t)
                        (t_data ?t ! (selectBestIndex ?s * (1 * 2) + 1))) (Fin 1)
            then 0 else opaqueElement 2 1 ! (4 * 1 + 3))" .
  with m1 b rg have p1: "?rgba ! (4 * 1 + 3) = opaqueElement 2 1 ! (4 * 1 + 3)" by simp
  from h1 h2 h4 h5 h6 b m0 m1 p0 p1 o show ?thesis by (intro conjI)
qed

text \<open>
  Claim C1 as stated fails where the base image is transparent: for a fully transparent
  base image and a one-pixel mask whose value is 0, the segmentation succeeds, the clip
  buffer's alpha at the pixel is 0, and the mask value there is not 1.
\<close>

theorem buildMaskData_clip_alpha_counterexample:
  "buildMaskData nearestStore transparentElement [Fin (9/10)] [boolTensor [1, 1, 1, 1] [Fin 0]]
   = Inr \<lparr>maskCanvas = Some \<lparr>canvasWidth = 1, canvasHeight = 1, rgbaData = [0, 0, 0, 0]\<rparr>,
          clippingOverlayCanvas =
            Some \<lparr>canvasWidth = 1, canvasHeight = 1, rgbaData = [0, 0, 0, 0]\<rparr>\<rparr> \<and>
   [0, 0, 0, 0 :: byte] ! 3 = 0 \<and>
   \<not> js_eq (t_data (boolTensor [1, 1, 1, 1] [Fin 0])
              ! (selectBestIndex [Fin (9/10)] * (1 * 1) + 0)) (Fin 1)"
proof -
  have "buildMaskData nearestStore transparentElement [Fin (9/10)] [boolTensor [1, 1, 1, 1] [Fin 0]]
   = Inr \<lparr>maskCanvas = Some \<lparr>canvasWidth = 1, canvasHeight = 1, rgbaData = [0, 0, 0, 0]\<rparr>,
          clippingOverlayCanvas =
            Some \<lparr>canvasWidth = 1, canvasHeight = 1, rgbaData = [0, 0, 0, 0]\<rparr>\<rparr>"
    by code_simp
  moreover have "selectBestIndex [Fin (9/10)] = 0"
    by (simp add: selectBestIndex_def)
  ultimately show ?thesis by (simp add: boolTensor_def)
qed

section \<open>Properties of the segmentation session\<close>

text \<open>
  Claim C5. Whenever a point-set mutation leaves the point list empty while mask buffers
  exist, the mask buffers are cleared (set to null) and the global clip toggle is reset to
  false; nothing else changes and no segmentation is started. Stated for any mutation
  \<open>setSegmentationPoints(f)\<close> and for the effect after \<open>handleRemovePoint\<close>; the reset of
  \<open>handleUploadBaseImage\<close>, which empties the list itself, clears both in the same step.
\<close>

theorem setSegmentationPoints_empty_clears:
  "(f (segmentationPoints st) = [] \<and> maskData st \<noteq> None \<longrightarrow>
      setSegmentationPoints isSamReady f st
        = st\<lparr>segmentationPoints := [], maskData := None, clipImagesGlobally := False\<rparr>) \<and>
   (segmentationPoints (handleRemovePoint i st) = [] \<and> maskData st \<noteq> None \<longrightarrow>
      segmentationEffect isSamReady (handleRemovePoint i st)
        = (st\<lparr>segmentationPoints := [], maskData := None, clipImagesGlobally := False\<rparr>, None)) \<and>
   segmentationPoints (uploadBaseImageReset st) = [] \<and>
   maskData (uploadBaseImageReset st) = None \<and>
   clipImagesGlobally (uploadBaseImageReset st) = False"
  by (auto simp: setSegmentationPoints_def segmentationEffect_def handleRemovePoint_def Let_def
      uploadBaseImageReset_def)

theorem setSegmentationPoints_empty_clears_witness:
  "filter (\<lambda>p. point_id p \<noteq> ''p1'') (segmentationPoints (maskReadyState ''data:a'')) = [] \<and>
   segmentationPoints (handleRemovePoint ''p1'' (maskReadyState ''data:a'')) = [] \<and>
   maskData (maskReadyState ''data:a'') \<noteq> None \<and>
   clipImagesGlobally (maskReadyState ''data:a'') \<and>
   setSegmentationPoints True (filter (\<lambda>p. point_id p \<noteq> ''p1'')) (maskReadyState ''data:a'')
     = (maskReadyState ''data:a'')
         \<lparr>segmentationPoints := [], maskData := None, clipImagesGlobally := False\<rparr> \<and>
   segmentationEffect True (handleRemovePoint ''p1'' (maskReadyState ''data:a''))
     = ((maskReadyState ''data:a'')
         \<lparr>segmentationPoints := [], maskData := None, clipImagesGlobally := False\<rparr>, None)"
proof -
  have a: "filter (\<lambda>p. point_id p \<noteq> ''p1'') (segmentationPoints (maskReadyState ''data:a'')) = []"
    by (simp add: maskReadyState_def)
  have b: "segmentationPoints (handleRemovePoint ''p1'' (maskReadyState ''data:a'')) = []"
    by (simp add: maskReadyState_def handleRemovePoint_def)
  have c: "maskData (maskReadyState ''data:a'') \<noteq> None"
    and d: "clipImagesGlobally (maskReadyState ''data:a'')"
    by (simp_all add: maskReadyState_def)
  from setSegmentationPoints_empty_clears
         [of "filter (\<lambda>p. point_id p \<noteq> ''p1'')" "maskReadyState ''data:a''" True "''p1''"]
       a b c d
  show ?thesis by blast
qed

text \<open>
  Claim C4. A segmentation result whose originating base image has been replaced before the
  result arrives is never applied. On completion the src of the base image the request was
  started with is compared with the src of the live base image; when they differ, or no
  base image is live, the mask state is cleared and the clip toggle reset. A mask is stored
  only when it is the result and the two srcs are equal, and the base image is not touched.
  The embedding continuations likewise leave the state alone when the srcs differ.
\<close>

theorem segmentationThen_stale_discarded:
  "(map_option src (baseImage st) \<noteq> Some (src startedWith) \<longrightarrow>
      segmentationThen startedWith newMask st
        = st\<lparr>maskData := None, clipImagesGlobally := False\<rparr>) \<and>
   (maskData (segmentationThen startedWith newMask st) = Some m \<longrightarrow>
      newMask = Some m \<and> (\<exists>cur. baseImage st = Some cur \<and> src cur = src startedWith)) \<and>
   baseImage (segmentationThen startedWith newMask st) = baseImage st \<and>
   (map_option src (baseImage st) \<noteq> Some currentImageSrc \<longrightarrow>
      embeddingThen currentImageSrc result st = st \<and> embeddingCatch currentImageSrc st = st)"
  by (auto simp: segmentationThen_def embeddingThen_def embeddingCatch_def
           split: option.splits prod.splits)

theorem segmentationThen_stale_discarded_witness:
  "map_option src (baseImage (maskReadyState ''data:b''))
     \<noteq> Some (src (uploadedBaseImage ''data:a'' opaqueElement 1 1)) \<and>
   segmentationThen (uploadedBaseImage ''data:a'' opaqueElement 1 1) (Some onePixelMask)
       (maskReadyState ''data:b'')
     = (maskReadyState ''data:b'')\<lparr>maskData := None, clipImagesGlobally := False\<rparr> \<and>
   maskData (segmentationThen (uploadedBaseImage ''data:a'' opaqueElement 1 1) (Some onePixelMask)
       (uploadBaseImageLoaded (uploadedBaseImage ''data:a'' opaqueElement 1 1)
          (uploadBaseImageReset initialState))) = Some onePixelMask \<and>
   src (uploadedBaseImage ''data:a'' opaqueElement 1 1) = ''data:a'' \<and>
   map_option src (baseImage (maskReadyState ''data:b'')) \<noteq> Some ''data:a'' \<and>
   embeddingThen ''data:a'' None (maskReadyState ''data:b'') = maskReadyState ''data:b'' \<and>
   embeddingCatch ''data:a'' (maskReadyState ''data:b'') = maskReadyState ''data:b''"
proof -
  let ?a = "uploadedBaseImage ''data:a'' opaqueElement 1 1"
  let ?st = "uploadBaseImageLoaded ?a (uploadBaseImageReset initialState)"
  have h1: "map_option src (baseImage (maskReadyState ''data:b'')) \<noteq> Some (src ?a)"
    by (simp add: maskReadyState_def uploadedBaseImage_def)
  have h2: "map_option src (baseImage (maskReadyState ''data:b'')) \<noteq> Some ''data:a''"
    by (simp add: maskReadyState_def uploadedBaseImage_def)
  have h3: "maskData (segmentationThen ?a (Some onePixelMask) ?st) = Some onePixelMask"
    by (simp add: segmentationThen_def uploadBaseImageLoaded_def)
  have h4: "src ?a = ''data:a''" by (simp add: uploadedBaseImage_def)
  from segmentationThen_stale_discarded
         [of "maskReadyState ''data:b''" ?a "Some onePixelMask" onePixelMask "''data:a''" None]
       h1 h2
  have "segmentationThen ?a (Some onePixelMask) (maskReadyState ''data:b'')
          = (maskReadyState ''data:b'')\<lparr>maskData := None, clipImagesGlobally := False\<rparr> \<and>
        embeddingThen ''data:a'' None (maskReadyState ''data:b'') = maskReadyState ''data:b'' \<and>
        embeddingCatch ''data:a'' (maskReadyState ''data:b'') = maskReadyState ''data:b''"
    by blast
  with h1 h2 h3 h4 show ?thesis by blast
qed

section \<open>Properties of the layer store\<close>

lemma validateAttrs_fields:
  "attrRelX (validateAttrs a) = (case attrRelX a of None \<Rightarrow> None | Some n \<Rightarrow> if n = NaN then None else Some n)"
  "attrRelY (validateAttrs a) = (case attrRelY a of None \<Rightarrow> None | Some n \<Rightarrow> if n = NaN then None else Some n)"
  "attrRelWidth (validateAttrs a) =
     (case attrRelWidth a of None \<Rightarrow> None | Some n \<Rightarrow> if n = NaN \<or> js_le n (Fin 0) then None else Some n)"
  "attrRelHeight (validateAttrs a) =
     (case attrRelHeight a of None \<Rightarrow> None | Some n \<Rightarrow> if n = NaN \<or> js_le n (Fin 0) then None else Some n)"
  "attrRotation (validateAttrs a) = (case attrRotation a of None \<Rightarrow> None | Some n \<Rightarrow> if n = NaN then None else Some n)"
  by (cases "attrRelX a"; cases "attrRelY a"; cases "attrRelWidth a"; cases "attrRelHeight a";
      cases "attrRotation a"; simp add: validateAttrs_def isValidNumber_def Let_def)+

text \<open>
  Claim C6, as amended. \<open>updateTransform\<close> applied to a layer is a partial patch: for every
  layer list and every attribute set, a field absent from the patch keeps its stored value;
  a \<open>relX\<close>, \<open>relY\<close> or \<open>rotation\<close> field that is NaN is dropped (field unchanged); a
  \<open>relWidth\<close> or \<open>relHeight\<close> field that is NaN or not positive is dropped (field
  unchanged); every other field of the patch is applied, infinite values included; no other
  field of the layer changes, and layers with other ids are unchanged.
\<close>

theorem handleUpdateImageTransform_patch:
  "length (handleUpdateImageTransform i attrs prev) = length prev \<and>
   (\<forall>k<length prev.
      (image_id (prev ! k) \<noteq> i \<longrightarrow> handleUpdateImageTransform i attrs prev ! k = prev ! k) \<and>
      (image_id (prev ! k) = i \<longrightarrow>
         handleUpdateImageTransform i attrs prev ! k =
           (prev ! k)\<lparr>
             relX := (case attrRelX attrs of None \<Rightarrow> relX (prev ! k)
                      | Some n \<Rightarrow> if n = NaN then relX (prev ! k) else n),
             relY := (case attrRelY attrs of None \<Rightarrow> relY (prev ! k)
                      | Some n \<Rightarrow> if n = NaN then relY (prev ! k) else n),
             relWidth := (case attrRelWidth attrs of None \<Rightarrow> relWidth (prev ! k)
                      | Some n \<Rightarrow> if n = NaN \<or> js_le n (Fin 0) then relWidth (prev ! k) else n),
             relHeight := (case attrRelHeight attrs of None \<Rightarrow> relHeight (prev ! k)
                      | Some n \<Rightarrow> if n = NaN \<or> js_le n (Fin 0) then relHeight (prev ! k) else n),
             rotation := (case attrRotation attrs of None \<Rightarrow> rotation (prev ! k)
                      | Some n \<Rightarrow> if n = NaN then rotation (prev ! k) else n)\<rparr>))"
proof (intro conjI allI impI)
  show "length (handleUpdateImageTransform i attrs prev) = length prev"
    by (simp add: handleUpdateImageTransform_def)
next
  fix k assume "k < length prev" "image_id (prev ! k) \<noteq> i"
  then show "handleUpdateImageTransform i attrs prev ! k = prev ! k"
    by (simp add: handleUpdateImageTransform_def)
next
  fix k assume k: "k < length prev" "image_id (prev ! k) = i"
  then have "handleUpdateImageTransform i attrs prev ! k = spreadAttrs (prev ! k) (validateAttrs attrs)"
    by (simp add: handleUpdateImageTransform_def)
  also have "\<dots> = (prev ! k)\<lparr>
             relX := (case attrRelX attrs of None \<Rightarrow> relX (prev ! k)
                      | Some n \<Rightarrow> if n = NaN then relX (prev ! k) else n),
             relY := (case attrRelY attrs of None \<Rightarrow> relY (prev ! k)
                      | Some n \<Rightarrow> if n = NaN then relY (prev ! k) else n),
             relWidth := (case attrRelWidth attrs of None \<Rightarrow> relWidth (prev ! k)
                      | Some n \<Rightarrow> if n = NaN \<or> js_le n (Fin 0) then relWidth (prev ! k) else n),
             relHeight := (case attrRelHeight attrs of None \<Rightarrow> relHeight (prev ! k)
                      | Some n \<Rightarrow> if n = NaN \<or> js_le n (Fin 0) then relHeight (prev ! k) else n),
             rotation := (case attrRotation attrs of None \<Rightarrow> rotation (prev ! k)
                      | Some n \<Rightarrow> if n = NaN then rotation (prev ! k) else n)\<rparr>"
    unfolding spreadAttrs_def validateAttrs_fields by (simp split: option.splits)
  finally show "handleUpdateImageTransform i attrs prev ! k = (prev ! k)\<lparr>
             relX := (case attrRelX attrs of None \<Rightarrow> relX (prev ! k)
                      | Some n \<Rightarrow> if n = NaN then relX (prev ! k) else n),
             relY := (case attrRelY attrs of None \<Rightarrow> relY (prev ! k)
                      | Some n \<Rightarrow> if n = NaN then relY (prev ! k) else n),
             relWidth := (case attrRelWidth attrs of None \<Rightarrow> relWidth (prev ! k)
                      | Some n \<Rightarrow> if n = NaN \<or> js_le n (Fin 0) then relWidth (prev ! k) else n),
             relHeight := (case attrRelHeight attrs of None \<Rightarrow> relHeight (prev ! k)
                      | Some n \<Rightarrow> if n = NaN \<or> js_le n (Fin 0) then relHeight (prev ! k) else n),
             rotation := (case attrRotation attrs of None \<Rightarrow> rotation (prev ! k)
                      | Some n \<Rightarrow> if n = NaN then rotation (prev ! k) else n)\<rparr>" .
qed

theorem handleUpdateImageTransform_patch_witness:
  "(0::nat) < length [placeholderImage ''a'' ''a.png'', placeholderImage ''b'' ''b.png''] \<and>
   image_id ([placeholderImage ''a'' ''a.png'', placeholderImage ''b'' ''b.png''] ! 0) = ''a'' \<and>
   image_id ([placeholderImage ''a'' ''a.png'', placeholderImage ''b'' ''b.png''] ! 1) \<noteq> ''a'' \<and>
   handleUpdateImageTransform ''a''
     \<lparr>attrRelX = Some NaN, attrRelY = Some (Fin (1/4)), attrRelWidth = Some (Fin 0),
      attrRelHeight = Some (Fin (1/5)), attrRotation = None\<rparr>
     [placeholderImage ''a'' ''a.png'', placeholderImage ''b'' ''b.png''] ! 0
   = (placeholderImage ''a'' ''a.png'')\<lparr>relY := Fin (1/4), relHeight := Fin (1/5)\<rparr> \<and>
   handleUpdateImageTransform ''a''
     \<lparr>attrRelX = Some NaN, attrRelY = Some (Fin (1/4)), attrRelWidth = Some (Fin 0),
      attrRelHeight = Some (Fin (1/5)), attrRotation = None\<rparr>
     [placeholderImage ''a'' ''a.png'', placeholderImage ''b'' ''b.png''] ! 1
   = placeholderImage ''b'' ''b.png''"
proof -
  let ?L = "[placeholderImage ''a'' ''a.png'', placeholderImage ''b'' ''b.png'']"
  let ?p = "\<lparr>attrRelX = Some NaN, attrRelY = Some (Fin (1/4)), attrRelWidth = Some (Fin 0),
      attrRelHeight = Some (Fin (1/5)), attrRotation = None\<rparr>"
  have ia: "image_id (?L ! 0) = ''a''" and ib: "image_id (?L ! 1) \<noteq> ''a''"
    by (simp_all add: placeholderImage_def)
  have l0: "(0::nat) < length ?L" and l1: "(1::nat) < length ?L" by simp_all
  have z: "js_le (Fin 0) (Fin 0)" and nz: "\<not> js_le (Fin (1/5)) (Fin 0)"
    by (simp_all add: js_le_def)
  from handleUpdateImageTransform_patch [of "''a''" ?p ?L] l0 ia
  have "handleUpdateImageTransform ''a'' ?p ?L ! 0 =
          (?L ! 0)\<lparr>
             relX := (case attrRelX ?p of None \<Rightarrow> relX (?L ! 0)
                      | Some n \<Rightarrow> if n = NaN then relX (?L ! 0) else n),
             relY := (case attrRelY ?p of None \<Rightarrow> relY (?L ! 0)
                      | Some n \<Rightarrow> if n = NaN then relY (?L ! 0) else n),
             relWidth := (case attrRelWidth ?p of None \<Rightarrow> relWidth (?L ! 0)
                      | Some n \<Rightarrow> if n = NaN \<or> js_le n (Fin 0) then relWidth (?L ! 0) else n),
             relHeight := (case attrRelHeight ?p of None \<Rightarrow> relHeight (?L ! 0)
                      | Some n \<Rightarrow> if n = NaN \<or> js_le n (Fin 0) then relHeight (?L ! 0) else n),
             rotation := (case attrRotation ?p of None \<Rightarrow> rotation (?L ! 0)
                      | Some n \<Rightarrow> if n = NaN then rotation (?L ! 0) else n)\<rparr>"
    by blast
  then have r0: "handleUpdateImageTransform ''a'' ?p ?L ! 0
      = (placeholderImage ''a'' ''a.png'')\<lparr>relY := Fin (1/4), relHeight := Fin (1/5)\<rparr>"
    using z nz by (simp add: placeholderImage_def)
  from handleUpdateImageTransform_patch [of "''a''" ?p ?L] l1 ib
  have "handleUpdateImageTransform ''a'' ?p ?L ! 1 = ?L ! 1" by blast
  then have r1: "handleUpdateImageTransform ''a'' ?p ?L ! 1 = placeholderImage ''b'' ''b.png''"
    by simp
  from l0 ia ib r0 r1 show ?thesis by blast
qed

text \<open>
  Claim C6 as stated fails for an infinite value: \<open>Infinity\<close> is not a finite number, yet
  a patch that sets \<open>relX\<close> to it is applied, and the stored \<open>relX\<close> of 1/2 is replaced.
\<close>

theorem handleUpdateImageTransform_infinity_applied:
  "\<not> js_isFinite PosInf \<and>
   relX (placeholderImage ''a'' ''a.png'') = Fin (1/2) \<and>
   relX (handleUpdateImageTransform ''a'' (relXOnly PosInf) [placeholderImage ''a'' ''a.png''] ! 0)
     = PosInf"
  by (simp add: handleUpdateImageTransform_def validateAttrs_def spreadAttrs_def relXOnly_def
      placeholderImage_def isValidNumber_def)

lemma find_map_same_id:
  "(\<And>t. image_id (f t) = image_id t) \<Longrightarrow>
   find (\<lambda>t. image_id t = i) (map f xs) = map_option f (find (\<lambda>t. image_id t = i) xs)"
  by (induction xs) auto

lemma find_Some_props:
  "find P xs = Some x \<Longrightarrow> P x \<and> x \<in> set xs"
  by (induction xs) (auto split: if_splits)

lemma handleRemoveBackground_refused_flag:
  "find (\<lambda>t. image_id t = i) images = Some l \<Longrightarrow> isRemovingBg l \<Longrightarrow>
   handleRemoveBackground i ready images = (images, None)"
  by (simp add: handleRemoveBackground_def)

lemma handleRemoveBackground_refused_src:
  "find (\<lambda>t. image_id t = i) images = Some l \<Longrightarrow> processedSrc l \<noteq> originalSrc l \<Longrightarrow>
   handleRemoveBackground i ready images = (images, None)"
  by (simp add: handleRemoveBackground_def)

lemma handleRemoveBackground_started:
  "find (\<lambda>t. image_id t = i) images = Some l \<Longrightarrow> \<not> isRemovingBg l \<Longrightarrow>
   processedSrc l = originalSrc l \<Longrightarrow>
   handleRemoveBackground i True images =
     (map (\<lambda>t. if image_id t = i then t\<lparr>isRemovingBg := True\<rparr> else t) images, Some (originalSrc l))"
  by (simp add: handleRemoveBackground_def)

lemma find_after_start:
  assumes "a \<noteq> b"
  shows "find (\<lambda>t. image_id t = b) (map (\<lambda>t. if image_id t = a then t\<lparr>isRemovingBg := True\<rparr> else t) images)
         = find (\<lambda>t. image_id t = b) images"
  using assms by (induction images) auto

text \<open>
  Claim C8. A background-removal request for a layer whose \<open>isRemovingBg\<close> flag is already
  set returns at once: the layer list is unchanged and the service is not called. Removals
  on distinct layers may be in flight at the same time: when two layers with different ids
  are both eligible, a request for the second right after the request for the first is
  accepted too, both service calls are made and both layers carry the flag.
\<close>

theorem handleRemoveBackground_per_layer:
  "(find (\<lambda>t. image_id t = i) images = Some l \<and> isRemovingBg l \<longrightarrow>
      handleRemoveBackground i ready images = (images, None)) \<and>
   (a \<noteq> b \<and>
    find (\<lambda>t. image_id t = a) images = Some la \<and> \<not> isRemovingBg la \<and> processedSrc la = originalSrc la \<and>
    find (\<lambda>t. image_id t = b) images = Some lb \<and> \<not> isRemovingBg lb \<and> processedSrc lb = originalSrc lb \<longrightarrow>
      snd (handleRemoveBackground a True images) = Some (originalSrc la) \<and>
      snd (handleRemoveBackground b True (fst (handleRemoveBackground a True images)))
        = Some (originalSrc lb) \<and>
      (\<forall>t \<in> set (fst (handleRemoveBackground b True (fst (handleRemoveBackground a True images)))).
          image_id t = a \<or> image_id t = b \<longrightarrow> isRemovingBg t))"
proof (intro conjI impI)
  assume "find (\<lambda>t. image_id t = i) images = Some l \<and> isRemovingBg l"
  then show "handleRemoveBackground i ready images = (images, None)"
    using handleRemoveBackground_refused_flag by blast
next
  assume h: "a \<noteq> b \<and>
    find (\<lambda>t. image_id t = a) images = Some la \<and> \<not> isRemovingBg la \<and> processedSrc la = originalSrc la \<and>
    find (\<lambda>t. image_id t = b) images = Some lb \<and> \<not> isRemovingBg lb \<and> processedSrc lb = originalSrc lb"
  let ?im1 = "map (\<lambda>t. if image_id t = a then t\<lparr>isRemovingBg := True\<rparr> else t) images"
  let ?im2 = "map (\<lambda>t. if image_id t = b then t\<lparr>isRemovingBg := True\<rparr> else t) ?im1"
  have s1: "handleRemoveBackground a True images = (?im1, Some (originalSrc la))"
    using h by (intro handleRemoveBackground_started) simp_all
  have fb: "find (\<lambda>t. image_id t = b) ?im1 = Some lb"
    using h find_after_start[of a b images] by simp
  have s2: "handleRemoveBackground b True ?im1 = (?im2, Some (originalSrc lb))"
    using fb h by (intro handleRemoveBackground_started) simp_all
  show "snd (handleRemoveBackground a True images) = Some (originalSrc la)" by (simp add: s1)
  show "snd (handleRemoveBackground b True (fst (handleRemoveBackground a True images)))
        = Some (originalSrc lb)" by (simp add: s1 s2)
  have "\<forall>t \<in> set ?im2. image_id t = a \<or> image_id t = b \<longrightarrow> isRemovingBg t" by auto
  then show "\<forall>t \<in> set (fst (handleRemoveBackground b True (fst (handleRemoveBackground a True images)))).
          image_id t = a \<or> image_id t = b \<longrightarrow> isRemovingBg t"
    by (simp only: s1 s2 fst_conv)
qed

theorem handleRemoveBackground_per_layer_witness:
  "find (\<lambda>t. image_id t = ''a'')
     (fst (handleRemoveBackground ''a'' True
        (imageFileRead ''a'' ''data:a'' (imageFileRead ''b'' ''data:b''
           [placeholderImage ''a'' ''a.png'', placeholderImage ''b'' ''b.png'']))))
   = Some ((placeholderImage ''a'' ''a.png'')
        \<lparr>originalSrc := ''data:a'', processedSrc := ''data:a'', isRemovingBg := True,
         isLoading := False\<rparr>) \<and>
   handleRemoveBackground ''a'' True
     (fst (handleRemoveBackground ''a'' True
        (imageFileRead ''a'' ''data:a'' (imageFileRead ''b'' ''data:b''
           [placeholderImage ''a'' ''a.png'', placeholderImage ''b'' ''b.png'']))))
   = (fst (handleRemoveBackground ''a'' True
        (imageFileRead ''a'' ''data:a'' (imageFileRead ''b'' ''data:b''
           [placeholderImage ''a'' ''a.png'', placeholderImage ''b'' ''b.png'']))), None) \<and>
   snd (handleRemoveBackground ''a'' True
        (imageFileRead ''a'' ''data:a'' (imageFileRead ''b'' ''data:b''
           [placeholderImage ''a'' ''a.png'', placeholderImage ''b'' ''b.png''])))
   = Some ''data:a'' \<and>
   snd (handleRemoveBackground ''b'' True
     (fst (handleRemoveBackground ''a'' True
        (imageFileRead ''a'' ''data:a'' (imageFileRead ''b'' ''data:b''
           [placeholderImage ''a'' ''a.png'', placeholderImage ''b'' ''b.png''])))))
   = Some ''data:b''"
proof -
  let ?L = "imageFileRead ''a'' ''data:a'' (imageFileRead ''b'' ''data:b''
           [placeholderImage ''a'' ''a.png'', placeholderImage ''b'' ''b.png''])"
  let ?la = "(placeholderImage ''a'' ''a.png'')
        \<lparr>originalSrc := ''data:a'', processedSrc := ''data:a'', isLoading := False\<rparr>"
  let ?lb = "(placeholderImage ''b'' ''b.png'')
        \<lparr>originalSrc := ''data:b'', processedSrc := ''data:b'', isLoading := False\<rparr>"
  let ?l = "(placeholderImage ''a'' ''a.png'')
        \<lparr>originalSrc := ''data:a'', processedSrc := ''data:a'', isRemovingBg := True,
         isLoading := False\<rparr>"
  have L: "?L = [?la, ?lb]" by (simp add: imageFileRead_def placeholderImage_def)
  have fa: "find (\<lambda>t. image_id t = ''a'') ?L = Some ?la"
    and fb: "find (\<lambda>t. image_id t = ''b'') ?L = Some ?lb"
    unfolding L by (simp_all add: placeholderImage_def)
  have ea: "\<not> isRemovingBg ?la \<and> processedSrc ?la = originalSrc ?la"
    and eb: "\<not> isRemovingBg ?lb \<and> processedSrc ?lb = originalSrc ?lb"
    by (simp_all add: placeholderImage_def)
  have oa: "originalSrc ?la = ''data:a''" and ob: "originalSrc ?lb = ''data:b''"
    by (simp_all add: placeholderImage_def)
  have f1: "find (\<lambda>t. image_id t = ''a'') (fst (handleRemoveBackground ''a'' True ?L)) = Some ?l"
    unfolding L by (simp add: handleRemoveBackground_def placeholderImage_def)
  have fl: "isRemovingBg ?l" by simp
  have ne: "''a'' \<noteq> ''b''" by simp
  from handleRemoveBackground_per_layer
         [of "''a''" "fst (handleRemoveBackground ''a'' True ?L)" ?l True "''a''" "''b''" ?la ?lb]
       f1 fl
  have c1: "handleRemoveBackground ''a'' True (fst (handleRemoveBackground ''a'' True ?L))
          = (fst (handleRemoveBackground ''a'' True ?L), None)" by blast
  from handleRemoveBackground_per_layer
         [of "''a''" ?L ?l True "''a''" "''b''" ?la ?lb] ne fa fb ea eb
  have "snd (handleRemoveBackground ''a'' True ?L) = Some (originalSrc ?la) \<and>
        snd (handleRemoveBackground ''b'' True (fst (handleRemoveBackground ''a'' True ?L)))
          = Some (originalSrc ?lb)" by blast
  with oa ob have c2: "snd (handleRemoveBackground ''a'' True ?L) = Some ''data:a'' \<and>
        snd (handleRemoveBackground ''b'' True (fst (handleRemoveBackground ''a'' True ?L)))
          = Some ''data:b''" by simp
  from f1 c1 c2 show ?thesis by blast
qed

text \<open>
  Claim C10, as amended. Background removal is refused (layer list left unchanged, no
  service call made) for any layer whose processed source differs from its original
  source; consequently a layer for which a background removal or a tint has stored a
  processed source that differs from its original source cannot start a background
  removal.
\<close>

theorem handleRemoveBackground_processed_refused:
  "(find (\<lambda>t. image_id t = i) images = Some l \<and> processedSrc l \<noteq> originalSrc l \<longrightarrow>
      handleRemoveBackground i ready images = (images, None)) \<and>
   (find (\<lambda>t. image_id t = i) images = Some l \<and> resultSrc \<noteq> originalSrc l \<longrightarrow>
      handleRemoveBackground i ready (removeBackgroundLoaded i resultSrc img images)
        = (removeBackgroundLoaded i resultSrc img images, None) \<and>
      handleRemoveBackground i ready (addColorLoaded i resultSrc img images)
        = (addColorLoaded i resultSrc img images, None))"
proof (intro conjI impI)
  assume "find (\<lambda>t. image_id t = i) images = Some l \<and> processedSrc l \<noteq> originalSrc l"
  then show "handleRemoveBackground i ready images = (images, None)"
    using handleRemoveBackground_refused_src by blast
next
  assume h: "find (\<lambda>t. image_id t = i) images = Some l \<and> resultSrc \<noteq> originalSrc l"
  let ?f = "\<lambda>t. if image_id t = i
               then t\<lparr>processedSrc := resultSrc, konvaImage := Some img, isRemovingBg := False\<rparr>
               else t"
  have "find (\<lambda>t. image_id t = i) (map ?f images) = map_option ?f (find (\<lambda>t. image_id t = i) images)"
    by (rule find_map_same_id) simp
  with h have f: "find (\<lambda>t. image_id t = i) (removeBackgroundLoaded i resultSrc img images) = Some (?f l)"
    by (simp add: removeBackgroundLoaded_def)
  from h have "image_id l = i" using find_Some_props[of "\<lambda>t. image_id t = i" images l] by simp
  with h have "processedSrc (?f l) \<noteq> originalSrc (?f l)" by simp
  from handleRemoveBackground_refused_src[OF f this]
  show "handleRemoveBackground i ready (removeBackgroundLoaded i resultSrc img images)
        = (removeBackgroundLoaded i resultSrc img images, None)" .
next
  assume h: "find (\<lambda>t. image_id t = i) images = Some l \<and> resultSrc \<noteq> originalSrc l"
  let ?f = "\<lambda>t. if image_id t = i
               then t\<lparr>processedSrc := resultSrc, konvaImage := Some img, isChangingColor := False\<rparr>
               else t"
  have "find (\<lambda>t. image_id t = i) (map ?f images) = map_option ?f (find (\<lambda>t. image_id t = i) images)"
    by (rule find_map_same_id) simp
  with h have f: "find (\<lambda>t. image_id t = i) (addColorLoaded i resultSrc img images) = Some (?f l)"
    by (simp add: addColorLoaded_def)
  from h have "image_id l = i" using find_Some_props[of "\<lambda>t. image_id t = i" images l] by simp
  with h have "processedSrc (?f l) \<noteq> originalSrc (?f l)" by simp
  from handleRemoveBackground_refused_src[OF f this]
  show "handleRemoveBackground i ready (addColorLoaded i resultSrc img images)
        = (addColorLoaded i resultSrc img images, None)" .
qed

theorem handleRemoveBackground_processed_refused_witness:
  "find (\<lambda>t. image_id t = ''a'')
     (imageFileRead ''a'' ''data:a'' [placeholderImage ''a'' ''a.png''])
   = Some ((placeholderImage ''a'' ''a.png'')
        \<lparr>originalSrc := ''data:a'', processedSrc := ''data:a'', isLoading := False\<rparr>) \<and>
   ''data:cut'' \<noteq> originalSrc ((placeholderImage ''a'' ''a.png'')
        \<lparr>originalSrc := ''data:a'', processedSrc := ''data:a'', isLoading := False\<rparr>) \<and>
   handleRemoveBackground ''a'' True
     (removeBackgroundLoaded ''a'' ''data:cut'' 1
        (imageFileRead ''a'' ''data:a'' [placeholderImage ''a'' ''a.png'']))
   = (removeBackgroundLoaded ''a'' ''data:cut'' 1
        (imageFileRead ''a'' ''data:a'' [placeholderImage ''a'' ''a.png'']), None) \<and>
   handleRemoveBackground ''a'' True
     (addColorLoaded ''a'' ''data:cut'' 1
        (imageFileRead ''a'' ''data:a'' [placeholderImage ''a'' ''a.png'']))
   = (addColorLoaded ''a'' ''data:cut'' 1
        (imageFileRead ''a'' ''data:a'' [placeholderImage ''a'' ''a.png'']), None)"
proof -
  let ?L = "imageFileRead ''a'' ''data:a'' [placeholderImage ''a'' ''a.png'']"
  let ?la = "(placeholderImage ''a'' ''a.png'')
        \<lparr>originalSrc := ''data:a'', processedSrc := ''data:a'', isLoading := False\<rparr>"
  have fa: "find (\<lambda>t. image_id t = ''a'') ?L = Some ?la"
    by (simp add: imageFileRead_def placeholderImage_def)
  have ne: "''data:cut'' \<noteq> originalSrc ?la" by (simp add: placeholderImage_def)
  from handleRemoveBackground_processed_refused [of "''a''" ?L ?la True "''data:cut''" 1] fa ne
  show ?thesis by blast
qed

text \<open>
  Claim C10 as stated fails when the stored result is the original source itself: a layer
  read from \<open>data:image/png;base64,AA\<close> starts a background removal, the service returns
  the same data URL and it is stored, and the next request for the layer starts another
  background removal.
\<close>

theorem handleRemoveBackground_again_after_identical_result:
  "snd (handleRemoveBackground ''a'' True
          (imageFileRead ''a'' ''data:image/png;base64,AA'' [placeholderImage ''a'' ''a.png'']))
   = Some ''data:image/png;base64,AA'' \<and>
   map processedSrc
     (removeBackgroundLoaded ''a'' ''data:image/png;base64,AA'' 1
        (fst (handleRemoveBackground ''a'' True
           (imageFileRead ''a'' ''data:image/png;base64,AA'' [placeholderImage ''a'' ''a.png'']))))
   = [''data:image/png;base64,AA''] \<and>
   snd (handleRemoveBackground ''a'' True
          (removeBackgroundLoaded ''a'' ''data:image/png;base64,AA'' 1
             (fst (handleRemoveBackground ''a'' True
                (imageFileRead ''a'' ''data:image/png;base64,AA'' [placeholderImage ''a'' ''a.png''])))))
   = Some ''data:image/png;base64,AA''"
  by (simp add: handleRemoveBackground_def removeBackgroundLoaded_def imageFileRead_def
      placeholderImage_def)

section \<open>Properties of the coordinate conversion\<close>

lemma clamp_Fin:
  "Math_max (Fin 0) (Math_min (Fin 1) (Fin r)) = Fin (max 0 (min 1 r))"
  by (auto simp: Math_max_def Math_min_def max_def min_def)

lemma clamp_close:
  fixes x r :: real
  assumes "0 \<le> x" "x \<le> 1"
  shows "\<bar>max 0 (min 1 r) - x\<bar> \<le> \<bar>r - x\<bar>"
  using assms by (auto simp: max_def min_def abs_if)

text \<open>One coordinate of the round trip, on the reals.\<close>

lemma roundtrip_axis:
  fixes fl :: "real \<Rightarrow> real" and eps eta x W :: real
  assumes err: "\<forall>a. 0 \<le> a \<and> a \<le> max W 1 \<longrightarrow> \<bar>fl a - a\<bar> \<le> eps * a + eta"
      and mono: "\<forall>a b. a \<le> b \<longrightarrow> fl a \<le> fl b"
      and fl0: "fl 0 = 0" and repr: "fl W = W"
      and eps: "0 \<le> eps" and eta: "0 \<le> eta"
      and W: "0 < W" and x: "0 \<le> x" "x \<le> 1"
  shows "0 \<le> fl (x * W)" "fl (x * W) \<le> W"
        "\<bar>max 0 (min 1 (fl (fl (x * W) / W))) - x\<bar>
           \<le> (2 * eps + eps * eps) * x + ((1 + eps) / W + 1) * eta"
proof -
  have xw: "0 \<le> x * W" using x W by simp
  then have "fl 0 \<le> fl (x * W)" using mono by blast
  then show X0: "0 \<le> fl (x * W)" using fl0 by simp
  have xwW: "x * W \<le> W" using x W by (simp add: mult_left_le_one_le)
  then have "fl (x * W) \<le> fl W" using mono by blast
  then show XW: "fl (x * W) \<le> W" using repr by simp
  let ?X = "fl (x * W)"
  let ?q = "?X / W"
  have "x * W \<le> max W 1" using xwW by simp
  with err xw have e1: "\<bar>?X - x * W\<bar> \<le> eps * (x * W) + eta" by blast
  have "\<bar>?q - x\<bar> = \<bar>?X - x * W\<bar> / W"
    using W by (simp add: field_simps abs_if)
  also have "\<dots> \<le> (eps * (x * W) + eta) / W"
    by (rule divide_right_mono[OF e1]) (use W in simp)
  also have "\<dots> = eps * x + eta / W" using W by (simp add: add_divide_distrib)
  finally have e2: "\<bar>?q - x\<bar> \<le> eps * x + eta / W" .
  have q0: "0 \<le> ?q" using X0 W by simp
  have q1: "?q \<le> 1" using XW W by simp
  then have "?q \<le> max W 1" by simp
  with err q0 have e3: "\<bar>fl ?q - ?q\<bar> \<le> eps * ?q + eta" by blast
  from e2 have qx: "?q \<le> x + (eps * x + eta / W)" by (simp add: abs_le_iff)
  have "eps * ?q \<le> eps * (x + (eps * x + eta / W))" using qx eps by (rule mult_left_mono)
  with e3 have e4: "\<bar>fl ?q - ?q\<bar> \<le> eps * (x + (eps * x + eta / W)) + eta" by simp
  have "\<bar>fl ?q - x\<bar> \<le> \<bar>fl ?q - ?q\<bar> + \<bar>?q - x\<bar>" by simp
  also have "\<dots> \<le> (eps * (x + (eps * x + eta / W)) + eta) + (eps * x + eta / W)"
    using e4 e2 by simp
  also have "\<dots> = (2 * eps + eps * eps) * x + ((1 + eps) / W + 1) * eta"
    using W by (simp add: field_simps)
  finally have "\<bar>fl ?q - x\<bar> \<le> (2 * eps + eps * eps) * x + ((1 + eps) / W + 1) * eta" .
  with clamp_close[OF x, of "fl ?q"]
  show "\<bar>max 0 (min 1 (fl (fl (x * W) / W))) - x\<bar>
           \<le> (2 * eps + eps * eps) * x + ((1 + eps) / W + 1) * eta" by simp
qed

lemma coarse_err:
  "\<forall>a. 0 \<le> a \<and> a \<le> max (max 800 600) 1 \<longrightarrow> \<bar>coarseRounding a - a\<bar> \<le> (1/200) * a + 0"
  by (auto simp: coarseRounding_def)

lemma coarse_mono: "\<forall>a b. a \<le> b \<longrightarrow> coarseRounding a \<le> coarseRounding b"
  by (auto simp: coarseRounding_def)

text \<open>
  Claim C2. For every relative coordinate in \<open>[0, 1]\<close> and every stage with positive pixel
  dimensions, converting to absolute stage pixels (\<open>getPointCanvasCoords\<close>: multiply by the
  stage dimension) and back (\<open>handleInternalStageClick\<close>: divide by the stage dimension and
  clamp to \<open>[0, 1]\<close>) returns the coordinate within floating-point tolerance. The number
  format's rounding \<open>fl\<close> is any monotone rounding that keeps zero and the stage dimensions
  (numbers of the format) and whose error on the range of the values computed is at most
  \<open>eps\<close> relative plus \<open>eta\<close> absolute; for IEEE-754 doubles rounded to nearest,
  \<open>eps = 2^-53\<close> and \<open>eta = 2^-1075\<close>. The image rectangle is the one \<open>getBaseImageAttrs\<close>
  gives the base image node. Both conversions return a value, and each coordinate comes
  back in \<open>[0, 1]\<close> and within \<open>(2 eps + eps^2)\<close> times itself plus a multiple of \<open>eta\<close>;
  with exact arithmetic (\<open>eps = eta = 0\<close>) it comes back unchanged.
\<close>

theorem coordinate_roundtrip:
  fixes fl :: "real \<Rightarrow> real" and eps eta x y W H :: real
  assumes "\<forall>a. 0 \<le> a \<and> a \<le> max (max W H) 1 \<longrightarrow> \<bar>fl a - a\<bar> \<le> eps * a + eta"
      and "\<forall>a b. a \<le> b \<longrightarrow> fl a \<le> fl b"
      and "fl 0 = 0" and "fl W = W" and "fl H = H"
      and "0 \<le> eps" and "0 \<le> eta"
      and "0 < W" and "0 < H"
      and "0 \<le> x" and "x \<le> 1" and "0 \<le> y" and "y \<le> 1"
      and "stageSize = \<lparr>stageWidth = Fin W, stageHeight = Fin H\<rparr>"
      and "pointX point = Fin x" and "pointY point = Fin y"
  shows "\<exists>X Y x' y'.
           getBaseImageAttrs True stageSize \<noteq> None \<and>
           getPointCanvasCoords fl (getBaseImageAttrs True stageSize) stageSize point
             = Some (Fin X, Fin Y) \<and>
           handleInternalStageClick fl stageSize (the (getBaseImageAttrs True stageSize))
               (Fin X, Fin Y)
             = Some (Fin x', Fin y') \<and>
           0 \<le> x' \<and> x' \<le> 1 \<and> 0 \<le> y' \<and> y' \<le> 1 \<and>
           \<bar>x' - x\<bar> \<le> (2 * eps + eps * eps) * x + ((1 + eps) / W + 1) * eta \<and>
           \<bar>y' - y\<bar> \<le> (2 * eps + eps * eps) * y + ((1 + eps) / H + 1) * eta"
proof -
  let ?X = "fl (x * W)" and ?Y = "fl (y * H)"
  let ?x' = "max 0 (min 1 (fl (?X / W)))" and ?y' = "max 0 (min 1 (fl (?Y / H)))"
  have ew: "\<forall>a. 0 \<le> a \<and> a \<le> max W 1 \<longrightarrow> \<bar>fl a - a\<bar> \<le> eps * a + eta"
    using assms(1) by auto
  have eh: "\<forall>a. 0 \<le> a \<and> a \<le> max H 1 \<longrightarrow> \<bar>fl a - a\<bar> \<le> eps * a + eta"
    using assms(1) by auto
  note ax = roundtrip_axis[OF ew assms(2,3,4,6,7,8,10,11)]
  note ay = roundtrip_axis[OF eh assms(2,3,5,6,7,9,12,13)]
  have attrs: "getBaseImageAttrs True stageSize
      = Some \<lparr>rectX = Fin 0, rectY = Fin 0, rectWidth = Fin W, rectHeight = Fin H\<rparr>"
    using assms(8,9,14) by (simp add: getBaseImageAttrs_def js_falsy_def)
  have g: "getPointCanvasCoords fl (getBaseImageAttrs True stageSize) stageSize point
             = Some (Fin ?X, Fin ?Y)"
    using assms(14,15,16) attrs by (simp add: getPointCanvasCoords_def isValidNumber_def Let_def)
  have c: "handleInternalStageClick fl stageSize (the (getBaseImageAttrs True stageSize))
               (Fin ?X, Fin ?Y) = Some (Fin ?x', Fin ?y')"
    using assms(4,5,8,9,14) attrs ax(1,2) ay(1,2)
    by (simp add: handleInternalStageClick_def js_falsy_def Let_def clamp_Fin)
  have "0 \<le> ?x' \<and> ?x' \<le> 1 \<and> 0 \<le> ?y' \<and> ?y' \<le> 1" by simp
  with attrs g c ax(3) ay(3) show ?thesis by blast
qed

theorem coordinate_roundtrip_witness:
  "getPointCanvasCoords coarseRounding
     (getBaseImageAttrs True \<lparr>stageWidth = Fin 800, stageHeight = Fin 600\<rparr>)
     \<lparr>stageWidth = Fin 800, stageHeight = Fin 600\<rparr> (relativePoint (501/2000) (1/2))
   = Some (Fin 200, Fin 300) \<and>
   handleInternalStageClick coarseRounding \<lparr>stageWidth = Fin 800, stageHeight = Fin 600\<rparr>
     (the (getBaseImageAttrs True \<lparr>stageWidth = Fin 800, stageHeight = Fin 600\<rparr>))
     (Fin 200, Fin 300)
   = Some (Fin (1/4), Fin (1/2)) \<and>
   \<bar>1/4 - 501/2000\<bar>
     \<le> (2 * (1/200) + (1/200) * (1/200)) * (501/2000) + ((1 + 1/200) / 800 + 1) * (0::real) \<and>
   \<bar>1/2 - 1/2\<bar>
     \<le> (2 * (1/200) + (1/200) * (1/200)) * (1/2) + ((1 + 1/200) / 600 + 1) * (0::real)"
proof -
  let ?s = "\<lparr>stageWidth = Fin 800, stageHeight = Fin 600\<rparr>"
  let ?p = "relativePoint (501/2000) (1/2)"
  have g: "getPointCanvasCoords coarseRounding (getBaseImageAttrs True ?s) ?s ?p
      = Some (Fin 200, Fin 300)"
    by (simp add: getPointCanvasCoords_def getBaseImageAttrs_def js_falsy_def isValidNumber_def
        relativePoint_def coarseRounding_def)
  have c: "handleInternalStageClick coarseRounding ?s (the (getBaseImageAttrs True ?s))
      (Fin 200, Fin 300) = Some (Fin (1/4), Fin (1/2))"
    by (simp add: handleInternalStageClick_def getBaseImageAttrs_def js_falsy_def
        coarseRounding_def Math_max_def Math_min_def)
  have r: "coarseRounding 0 = 0" "coarseRounding 800 = 800" "coarseRounding 600 = 600"
    by (simp_all add: coarseRounding_def)
  have px: "pointX ?p = Fin (501/2000)" and py: "pointY ?p = Fin (1/2)"
    by (simp_all add: relativePoint_def)
  from coordinate_roundtrip [OF coarse_err coarse_mono r(1) r(2) r(3) _ _ _ _ _ _ _ _ refl px py]
  obtain X Y x' y' where
      "getPointCanvasCoords coarseRounding (getBaseImageAttrs True ?s) ?s ?p = Some (Fin X, Fin Y)"
      "handleInternalStageClick coarseRounding ?s (the (getBaseImageAttrs True ?s)) (Fin X, Fin Y)
         = Some (Fin x', Fin y')"
      "\<bar>x' - 501/2000\<bar>
         \<le> (2 * (1/200) + (1/200) * (1/200)) * (501/2000) + ((1 + 1/200) / 800 + 1) * 0"
      "\<bar>y' - 1/2\<bar>
         \<le> (2 * (1/200) + (1/200) * (1/200)) * (1/2) + ((1 + 1/200) / 600 + 1) * 0"
    by auto
  then have "\<bar>1/4 - 501/2000\<bar>
     \<le> (2 * (1/200) + (1/200) * (1/200)) * (501/2000) + ((1 + 1/200) / 800 + 1) * (0::real) \<and>
   \<bar>1/2 - 1/2\<bar>
     \<le> (2 * (1/200) + (1/200) * (1/200)) * (1/2) + ((1 + 1/200) / 600 + 1) * (0::real)"
    using g c by simp
  with g c show ?thesis by blast
qed

end
